theory Spec2Isabelle
  imports Main
begin

section \<open>Text as Python sees it\<close>

text \<open>
  A Python \<open>str\<close> is a sequence of Unicode code points and \<open>len\<close> counts code points.
  The sources contain emoji, dashes and curly quotes, so a string is modelled as a list of
  code points; \<open>py\<close> embeds an ASCII literal.
\<close>

type_synonym ustr = "nat list"

definition py :: "string \<Rightarrow> ustr" where
  "py s = map of_char s"

text \<open>\<open>t in s\<close> for strings: \<open>t\<close> occurs in \<open>s\<close> as a contiguous run.\<close>

fun startswith :: "ustr \<Rightarrow> ustr \<Rightarrow> bool" where
  "startswith s [] = True"
| "startswith [] (b # t) = False"
| "startswith (a # s) (b # t) = (a = b \<and> startswith s t)"

fun contains :: "ustr \<Rightarrow> ustr \<Rightarrow> bool" where
  "contains [] t = (t = [])"
| "contains (a # s) t = (startswith (a # s) t \<or> contains s t)"

text \<open>
  \<open>str.isspace\<close> of one code point, as CPython decides it: the ASCII controls 9-13 and 28-31,
  the space, and the Unicode separators. \<open>strip()\<close> without argument removes such code
  points at both ends; \<open>lstrip(chars)\<close> and \<open>rstrip(chars)\<close> remove the code points of
  \<open>chars\<close> at one end.
\<close>

definition isspace :: "nat \<Rightarrow> bool" where
  "isspace c \<longleftrightarrow>
     (9 \<le> c \<and> c \<le> 13) \<or> (28 \<le> c \<and> c \<le> 32) \<or> c = 133 \<or> c = 160 \<or> c = 5760
     \<or> (8192 \<le> c \<and> c \<le> 8202) \<or> c = 8232 \<or> c = 8233 \<or> c = 8239 \<or> c = 8287 \<or> c = 12288"

definition strip :: "ustr \<Rightarrow> ustr" where
  "strip s = rev (dropWhile isspace (rev (dropWhile isspace s)))"

definition lstrip :: "ustr \<Rightarrow> ustr \<Rightarrow> ustr" where
  "lstrip chars s = dropWhile (\<lambda>c. c \<in> set chars) s"

definition rstrip :: "ustr \<Rightarrow> ustr \<Rightarrow> ustr" where
  "rstrip chars s = rev (dropWhile (\<lambda>c. c \<in> set chars) (rev s))"

text \<open>\<open>s.split("\n")\<close>: the pieces between line feeds (code point 10), empty pieces kept.\<close>

fun split_from :: "ustr \<Rightarrow> ustr \<Rightarrow> ustr list" where
  "split_from piece [] = [piece]"
| "split_from piece (c # s) =
     (if c = 10 then piece # split_from [] s else split_from (piece @ [c]) s)"

definition split_nl :: "ustr \<Rightarrow> ustr list" where
  "split_nl s = split_from [] s"

text \<open>
  \<open>str.lower\<close>. An ASCII code point is lowered by itself: a capital letter moves up by 32,
  anything else stays. What a code point from 128 on becomes is decided by the Unicode tables
  of the Python runtime, which are no part of the repository, and for the capital sigma it
  depends on the neighbours; so that mapping is a parameter \<open>L\<close> that receives the text
  before the code point, the code point, and the text after it.
\<close>

type_synonym lower_table = "ustr \<Rightarrow> nat \<Rightarrow> ustr \<Rightarrow> ustr"

fun lower_from :: "lower_table \<Rightarrow> ustr \<Rightarrow> ustr \<Rightarrow> ustr" where
  "lower_from L pre [] = []"
| "lower_from L pre (c # post) =
     (if c < 128 then [if 65 \<le> c \<and> c \<le> 90 then c + 32 else c] else L pre c post)
     @ lower_from L (pre @ [c]) post"

definition lower :: "lower_table \<Rightarrow> ustr \<Rightarrow> ustr" where
  "lower L s = lower_from L [] s"

text \<open>\<open>str(n)\<close> of a natural number and \<open>str(b)\<close> of a boolean, as the f-strings print them.\<close>

fun str_nat :: "nat \<Rightarrow> ustr" where
  "str_nat n = (if n < 10 then [48 + n] else str_nat (n div 10) @ [48 + n mod 10])"

declare str_nat.simps [simp del]

definition str_bool :: "bool \<Rightarrow> ustr" where
  "str_bool b = (if b then py ''True'' else py ''False'')"

section \<open>Scoring (both programs)\<close>

text \<open>
  \<open>score_map\<close> is the same dictionary in \<open>gamified_mental_health_bot.py\<close> (lines 166-171)
  and \<open>mental_health_bot_combined.py\<close> (lines 47-52); \<open>emoji_options\<close> is the list of its
  keys in insertion order.
\<close>

definition score_map :: "(ustr \<times> int) list" where
  "score_map =
     [([128516] @ py '' Not at all'', 0),
      ([128578] @ py '' Several days'', 1),
      ([128528] @ py '' More than half the days'', 2),
      ([128543] @ py '' Nearly every day'', 3)]"

definition emoji_options :: "ustr list" where
  "emoji_options = map fst score_map"

text \<open>
  The scoring loop
  \<^verbatim>\<open>
  gad_score = 0
  for i, q in enumerate(gad_questions):
      response = st.select_slider(f"{i+1}. {q}", options=emoji_options, key=f"gad_{i}")
      gad_score += score_map[response]
  \<close>
  The slider is the rendering boundary: \<open>slider i\<close> is what it returns for item \<open>i\<close>.
  \<open>score_map[response]\<close> raises \<open>KeyError\<close> on a string that is no key; that is the
  result \<open>None\<close>.
\<close>

fun score_loop :: "(nat \<Rightarrow> ustr) \<Rightarrow> nat \<Rightarrow> ustr list \<Rightarrow> int \<Rightarrow> int option" where
  "score_loop slider i [] score = Some score"
| "score_loop slider i (q # qs) score =
     (case map_of score_map (slider i) of
        None \<Rightarrow> None
      | Some points \<Rightarrow> score_loop slider (Suc i) qs (score + points))"

definition screener_score :: "ustr list \<Rightarrow> (nat \<Rightarrow> ustr) \<Rightarrow> int option" where
  "screener_score questions slider = score_loop slider 0 questions 0"

section \<open>Results and badge\<close>

text \<open>The four Streamlit status boxes \<open>st.success\<close>, \<open>st.info\<close>, \<open>st.warning\<close>, \<open>st.error\<close>.\<close>

datatype level = St_success | St_info | St_warning | St_error

subsection \<open>\<open>gamified_mental_health_bot.py\<close>, lines 245-274\<close>

definition gad_results :: "int \<Rightarrow> level \<times> ustr" where
  "gad_results gad_score =
     (if gad_score \<le> 4 then (St_success, py ''Minimal anxiety'')
      else if gad_score \<le> 9 then (St_info, py ''Mild anxiety'')
      else if gad_score \<le> 14 then
        (St_warning, py ''Moderate anxiety '' @ [8212] @ py '' consider professional support.'')
      else (St_error, py ''Severe anxiety '' @ [8212] @ py '' please seek help.''))"

definition phq_results :: "int \<Rightarrow> level \<times> ustr" where
  "phq_results phq_score =
     (if phq_score \<le> 4 then (St_success, py ''Minimal depression'')
      else if phq_score \<le> 9 then (St_info, py ''Mild depression'')
      else if phq_score \<le> 14 then
        (St_warning, py ''Moderate depression '' @ [8212] @ py '' consider support.'')
      else if phq_score \<le> 19 then
        (St_warning, py ''Moderately severe depression '' @ [8212] @ py '' therapy recommended.'')
      else (St_error, py ''Severe depression '' @ [8212] @ py '' seek help immediately.''))"

definition mindful_mover :: "level \<times> ustr" where
  "mindful_mover =
     (St_success,
      [9989] @ py '' **Mindful Mover Badge** '' @ [8212] @ py '' keep up the self-care!'')"

definition resilience_builder :: "level \<times> ustr" where
  "resilience_builder =
     (St_warning,
      [127793] @ py '' **Resilience Builder Badge** '' @ [8212] @ py '' you'' @ [8217]
        @ py ''re showing strength.'')"

definition courageous_warrior :: "level \<times> ustr" where
  "courageous_warrior =
     (St_error,
      [128737, 65039] @ py '' **Courageous Warrior Badge** '' @ [8212] @ py '' you'' @ [8217]
        @ py ''re fighting hard. Please talk to someone.'')"

definition badge :: "int \<Rightarrow> int \<Rightarrow> level \<times> ustr" where
  "badge gad_score phq_score =
     (if phq_score < 10 \<and> gad_score < 10 then mindful_mover
      else if (10 \<le> phq_score \<and> phq_score < 15) \<or> (10 \<le> gad_score \<and> gad_score < 15)
        then resilience_builder
      else courageous_warrior)"

subsection \<open>\<open>mental_health_bot_combined.py\<close>, lines 97-127\<close>

text \<open>The same chains; the messages differ in the dash, in capitals and in one apostrophe.\<close>

definition gad_results_combined :: "int \<Rightarrow> level \<times> ustr" where
  "gad_results_combined gad_score =
     (if gad_score \<le> 4 then (St_success, py ''Minimal anxiety'')
      else if gad_score \<le> 9 then (St_info, py ''Mild anxiety'')
      else if gad_score \<le> 14 then
        (St_warning, py ''Moderate anxiety '' @ [8211] @ py '' consider professional support.'')
      else (St_error, py ''Severe anxiety '' @ [8211] @ py '' please seek help.''))"

definition phq_results_combined :: "int \<Rightarrow> level \<times> ustr" where
  "phq_results_combined phq_score =
     (if phq_score \<le> 4 then (St_success, py ''Minimal depression'')
      else if phq_score \<le> 9 then (St_info, py ''Mild depression'')
      else if phq_score \<le> 14 then
        (St_warning, py ''Moderate depression '' @ [8211] @ py '' consider support.'')
      else if phq_score \<le> 19 then
        (St_warning, py ''Moderately severe depression '' @ [8211] @ py '' therapy recommended.'')
      else (St_error, py ''Severe depression '' @ [8211] @ py '' seek help immediately.''))"

definition mindful_mover_combined :: "level \<times> ustr" where
  "mindful_mover_combined =
     (St_success,
      [9989] @ py '' **Mindful Mover Badge** '' @ [8211] @ py '' Keep up the self-care!'')"

definition resilience_builder_combined :: "level \<times> ustr" where
  "resilience_builder_combined =
     (St_warning,
      [127793] @ py '' **Resilience Builder Badge** '' @ [8211] @ py '' You'' @ [8217]
        @ py ''re showing strength.'')"

definition courageous_warrior_combined :: "level \<times> ustr" where
  "courageous_warrior_combined =
     (St_error,
      [128737, 65039] @ py '' **Courageous Warrior Badge** '' @ [8211] @ py '' You'' @ [39]
        @ py ''re fighting hard. Please talk to someone.'')"

definition badge_combined :: "int \<Rightarrow> int \<Rightarrow> level \<times> ustr" where
  "badge_combined gad_score phq_score =
     (if phq_score < 10 \<and> gad_score < 10 then mindful_mover_combined
      else if (10 \<le> phq_score \<and> phq_score < 15) \<or> (10 \<le> gad_score \<and> gad_score < 15)
        then resilience_builder_combined
      else courageous_warrior_combined)"

subsection \<open>The specification's band table\<close>

text \<open>
  The specification (section 4.3) words classification as a table lookup: "look up the first
  band in the screener's ordered severity-band table whose upper bound \<open>\<ge>\<close> score".
  \<open>classify_spec\<close> follows those words; \<open>band_table\<close> pairs each inclusive upper bound
  with the status box the code shows at that bound. The bounds are the code's thresholds,
  closed by the screener's maximum (21 and 27, lines 245 and 255).
\<close>

fun classify_spec :: "(int \<times> 'a) list \<Rightarrow> int \<Rightarrow> 'a option" where
  "classify_spec [] score = None"
| "classify_spec ((upper, band) # rest) score =
     (if score \<le> upper then Some band else classify_spec rest score)"

definition band_table :: "int list \<Rightarrow> (int \<Rightarrow> 'a) \<Rightarrow> (int \<times> 'a) list" where
  "band_table uppers shown = map (\<lambda>upper. (upper, shown upper)) uppers"

definition gad_uppers :: "int list" where
  "gad_uppers = [4, 9, 14, 21]"

definition phq_uppers :: "int list" where
  "phq_uppers = [4, 9, 14, 19, 27]"

section \<open>The situational rewriter (\<open>gamified_mental_health_bot.py\<close>, lines 47-141)\<close>

definition SCENARIO_TRIGGERS :: "ustr list" where
  "SCENARIO_TRIGGERS =
     [py ''when '', py ''while '', py ''before '', py ''after '', py ''at work'',
      py ''in class'', py ''on the bus'', py ''in a meeting'', py ''before bed'',
      py ''waking up'', py ''after dinner'', py ''during a call'', py ''at home'',
      py ''with friends'', py ''in public'', py ''on your commute'', py ''during chores'',
      py ''with family'', py ''on weekends'']"

text \<open>\<open>_looks_situational\<close> (line 54); 63 is the question mark.\<close>

definition looks_situational :: "lower_table \<Rightarrow> ustr \<Rightarrow> bool" where
  "looks_situational L line =
     (let s = lower L line
      in list_ex (\<lambda>t. contains s t) SCENARIO_TRIGGERS \<and> 63 \<in> set line)"

text \<open>The \<open>meta\<close> dictionary of the docstring (line 90).\<close>

record meta =
  used_model :: "ustr option"
  ai_ok :: bool
  reason :: ustr

text \<open>
  One generation call, \<open>client.chat.completions.create\<close> or \<open>openai.ChatCompletion.create\<close>
  followed by the read of \<open>choices[0].message.content\<close>: either something in the
  \<open>try\<close> block raises an \<open>Exception\<close> \<open>e\<close> (\<open>Raises\<close> carries \<open>str(e)\<close>), or the content is
  read, a string or \<open>None\<close>.
\<close>

datatype response = Raises ustr | Content "ustr option"

text \<open>
  The service is outside the program. \<open>create k model_name prompt expected strict\<close> is its
  answer to the \<open>k\<close>-th call of one run, made for that engine with the messages
  \<open>_fewshot_messages(prompt, expected, stricter=strict)\<close>; any function of this type is a
  behaviour of the service.
\<close>

type_synonym service = "nat \<Rightarrow> ustr \<Rightarrow> ustr \<Rightarrow> nat \<Rightarrow> bool \<Rightarrow> response"

text \<open>Lines 118-120: the validated lines of one reply. The argument of \<open>lstrip\<close> is line 119's.\<close>

definition LIST_MARKERS :: ustr where
  "LIST_MARKERS = py ''0123456789.)-'' @ [8211, 8212] @ py '' '' @ [8226]"

definition cleaned_lines :: "ustr \<Rightarrow> ustr list" where
  "cleaned_lines content =
     (let lines = map strip (filter (\<lambda>ln. strip ln \<noteq> []) (split_nl content))
      in map (\<lambda>ln. strip (lstrip LIST_MARKERS ln)) lines)"

definition scenario_lines :: "lower_table \<Rightarrow> ustr \<Rightarrow> ustr list" where
  "scenario_lines L content =
     filter (\<lambda>q. length q > 10 \<and> looks_situational L q) (cleaned_lines content)"

text \<open>Lines 110 and 116: \<open>(... content or "").strip()\<close>.\<close>

definition reply_text :: "ustr option \<Rightarrow> ustr" where
  "reply_text c = strip (case c of None \<Rightarrow> [] | Some text \<Rightarrow> text)"

text \<open>
  The state a run of the two loops carries: the local variable \<open>meta\<close>, the generation calls
  issued so far (oldest first), and the number of \<open>time.sleep(0.2)\<close> executed.
\<close>

record run =
  cur_meta :: meta
  calls :: "(ustr \<times> bool) list"
  sleeps :: nat

text \<open>
  The body of the inner loop (lines 103-133). \<open>Some (questions, meta)\<close> is the \<open>return\<close> of
  line 126; \<open>None\<close> is the fall through to the next iteration, after line 130 or after the
  \<open>except\<close> clause.
\<close>

definition attempt ::
  "lower_table \<Rightarrow> service \<Rightarrow> ustr \<Rightarrow> nat \<Rightarrow> ustr \<Rightarrow> bool \<Rightarrow> run
     \<Rightarrow> (ustr list \<times> meta) option \<times> run" where
  "attempt L create prompt expected model_name strict st =
     (let st1 = st\<lparr>calls := calls st @ [(model_name, strict)]\<rparr>
      in case create (length (calls st)) model_name prompt expected strict of
           Raises e \<Rightarrow>
             (None,
              st1\<lparr>cur_meta := \<lparr>used_model = Some model_name, ai_ok = False,
                                reason = py ''error: '' @ e\<rparr>\<rparr>)
         | Content c \<Rightarrow>
             (let content = reply_text c;
                  questions = take expected (scenario_lines L content)
              in if length questions = expected
                 then
                   (let m = \<lparr>used_model = Some model_name, ai_ok = True,
                             reason = py ''scenario-ok (strict='' @ str_bool strict @ py '')''\<rparr>
                    in (Some (questions, m), st1\<lparr>cur_meta := m\<rparr>))
                 else
                   (None,
                    st1\<lparr>cur_meta := \<lparr>used_model = Some model_name, ai_ok = False,
                                      reason = py ''got '' @ str_nat (length questions)
                                        @ py '' valid scenario lines (strict=''
                                        @ str_bool strict @ py '')''\<rparr>,
                        sleeps := Suc (sleeps st1)\<rparr>)))"

text \<open>\<open>for strict in (False, True)\<close> and \<open>for model_name in models\<close>.\<close>

fun strict_loop ::
  "lower_table \<Rightarrow> service \<Rightarrow> ustr \<Rightarrow> nat \<Rightarrow> ustr \<Rightarrow> bool list \<Rightarrow> run
     \<Rightarrow> (ustr list \<times> meta) option \<times> run" where
  "strict_loop L create prompt expected model_name [] st = (None, st)"
| "strict_loop L create prompt expected model_name (strict # rest) st =
     (case attempt L create prompt expected model_name strict st of
        (Some returned, st') \<Rightarrow> (Some returned, st')
      | (None, st') \<Rightarrow> strict_loop L create prompt expected model_name rest st')"

fun model_loop ::
  "lower_table \<Rightarrow> service \<Rightarrow> ustr \<Rightarrow> nat \<Rightarrow> ustr list \<Rightarrow> run
     \<Rightarrow> (ustr list \<times> meta) option \<times> run" where
  "model_loop L create prompt expected [] st = (None, st)"
| "model_loop L create prompt expected (model_name # rest) st =
     (case strict_loop L create prompt expected model_name [False, True] st of
        (Some returned, st') \<Rightarrow> (Some returned, st')
      | (None, st') \<Rightarrow> model_loop L create prompt expected rest st')"

text \<open>Line 138, the patch of one default item.\<close>

definition fix_default :: "lower_table \<Rightarrow> ustr \<Rightarrow> ustr" where
  "fix_default L q =
     (if looks_situational L q then q
      else py ''When you think about your day, '' @ rstrip [63] q @ [63])"

text \<open>
  The cache is the part of \<open>st.session_state\<close> under the keys
  \<open>f"ai_q::{hash(prompt)}::{expected}"\<close>. Two such keys are equal exactly when the two
  integers printed into them are, so a key is modelled as the pair of them. \<open>hash\<close> of a
  string is fixed within a process and otherwise unknown: it is the parameter \<open>str_hash\<close>.
\<close>

type_synonym cache = "int \<times> nat \<rightharpoonup> ustr list \<times> meta"

definition cache_key :: "(ustr \<Rightarrow> int) \<Rightarrow> ustr \<Rightarrow> nat \<Rightarrow> int \<times> nat" where
  "cache_key str_hash prompt expected = (str_hash prompt, expected)"

definition DEFAULT_MODELS :: "ustr list" where
  "DEFAULT_MODELS = [py ''gpt-4.1-nano'', py ''gpt-4o-mini'', py ''gpt-3.5-turbo'']"

text \<open>
  Line 93: \<open>model_candidates or [...]\<close> takes the default list for \<open>None\<close> and for an empty
  list.
\<close>

definition models_of :: "ustr list option \<Rightarrow> ustr list" where
  "models_of model_candidates =
     (case model_candidates of
        None \<Rightarrow> DEFAULT_MODELS
      | Some ms \<Rightarrow> if ms = [] then DEFAULT_MODELS else ms)"

text \<open>
  What a call of \<open>ai_generate_questions\<close> leaves behind: the returned pair, the session
  cache afterwards, the generation calls it issued and the number of sleeps.
\<close>

record outcome =
  returned :: "ustr list \<times> meta"
  cache_after :: cache
  calls_made :: "(ustr \<times> bool) list"
  sleeps_made :: nat

text \<open>
  The state in which the loops start: \<open>meta\<close> as line 99 sets it, no call issued, no sleep.
\<close>

definition start :: run where
  "start =
     \<lparr>cur_meta = \<lparr>used_model = None, ai_ok = False, reason = py ''not attempted''\<rparr>,
      calls = [], sleeps = 0\<rparr>"

text \<open>\<open>ai_generate_questions\<close> (line 86).\<close>

definition ai_generate_questions ::
  "lower_table \<Rightarrow> (ustr \<Rightarrow> int) \<Rightarrow> service \<Rightarrow> cache \<Rightarrow> ustr \<Rightarrow> ustr list
     \<Rightarrow> ustr list option \<Rightarrow> bool \<Rightarrow> outcome" where
  "ai_generate_questions L str_hash create session_state prompt defaults model_candidates
       force_refresh =
     (let expected = length defaults;
          models = models_of model_candidates;
          key = cache_key str_hash prompt expected
      in if \<not> force_refresh \<and> session_state key \<noteq> None
         then \<lparr>returned = the (session_state key), cache_after = session_state,
                calls_made = [], sleeps_made = 0\<rparr>
         else
           (case model_loop L create prompt expected models start of
                 (Some (questions, m), st) \<Rightarrow>
                   \<lparr>returned = (questions, m),
                     cache_after = session_state(key \<mapsto> (questions, m)),
                     calls_made = calls st, sleeps_made = sleeps st\<rparr>
               | (None, st) \<Rightarrow>
                   (let fixed_defaults = map (fix_default L) defaults;
                        result = (fixed_defaults, cur_meta st)
                    in \<lparr>returned = result, cache_after = session_state(key \<mapsto> result),
                         calls_made = calls st, sleeps_made = sleeps st\<rparr>)))"

section \<open>Vocabulary of the properties\<close>

text \<open>
  The order in which the two loops reach their attempts: the engines in the order given, each
  in normal mode and then in strict mode.
\<close>

definition schedule :: "ustr list \<Rightarrow> (ustr \<times> bool) list" where
  "schedule models =
     concat (map (\<lambda>model_name. [(model_name, False), (model_name, True)]) models)"

text \<open>
  The answer of the service to the \<open>k\<close>-th call of a run, made for the attempt \<open>a\<close>, and
  whether that answer holds at least \<open>expected\<close> validated lines.
\<close>

definition answer :: "service \<Rightarrow> ustr \<Rightarrow> nat \<Rightarrow> nat \<Rightarrow> ustr \<times> bool \<Rightarrow> response" where
  "answer create prompt expected k a = create k (fst a) prompt expected (snd a)"

definition enough_lines :: "lower_table \<Rightarrow> nat \<Rightarrow> response \<Rightarrow> bool" where
  "enough_lines L expected r =
     (case r of
        Raises e \<Rightarrow> False
      | Content c \<Rightarrow> expected \<le> length (scenario_lines L (reply_text c)))"

text \<open>
  The two nested loops as one loop over a list of attempts; the proofs run over this form
  (\<open>model_loop_flat\<close> below shows it is the same computation).
\<close>

fun attempts_loop ::
  "lower_table \<Rightarrow> service \<Rightarrow> ustr \<Rightarrow> nat \<Rightarrow> (ustr \<times> bool) list \<Rightarrow> run
     \<Rightarrow> (ustr list \<times> meta) option \<times> run" where
  "attempts_loop L create prompt expected [] st = (None, st)"
| "attempts_loop L create prompt expected (a # rest) st =
     (case attempt L create prompt expected (fst a) (snd a) st of
        (Some accepted, st') \<Rightarrow> (Some accepted, st')
      | (None, st') \<Rightarrow> attempts_loop L create prompt expected rest st')"

text \<open>
  What every entry of the session cache satisfies when only \<open>ai_generate_questions\<close> writes
  under the \<open>ai_q::\<close> keys: under the key with count \<open>n\<close> lie \<open>n\<close> questions, each of which
  looks situational.
\<close>

definition cache_ok :: "lower_table \<Rightarrow> cache \<Rightarrow> bool" where
  "cache_ok L session_state \<longleftrightarrow>
     (\<forall>h n qs m. session_state (h, n) = Some (qs, m) \<longrightarrow>
        length qs = n \<and> list_all (looks_situational L) qs)"

text \<open>
  Concrete surroundings for the examples: a runtime whose \<open>lower\<close> leaves every code point
  from 128 on as it is, a hash that is constantly 0, a service that answers every call alike,
  and one that answers the \<open>k\<close>-th call with the \<open>k\<close>-th entry of a list (and raises once
  the list is used up).
\<close>

definition no_upper :: lower_table where
  "no_upper pre c post = [c]"

definition hash0 :: "ustr \<Rightarrow> int" where
  "hash0 s = 0"

definition reply_always :: "response \<Rightarrow> service" where
  "reply_always r k model_name prompt expected strict = r"

definition reply_nth :: "response list \<Rightarrow> service" where
  "reply_nth rs k model_name prompt expected strict =
     (if k < length rs then rs ! k else Raises (py ''timed out''))"

text \<open>Texts of the examples: a default item, two lines of a reply, a short line.\<close>

definition tired :: ustr where
  "tired = py ''Are you tired?''"

definition wake_line :: ustr where
  "wake_line = py ''When you wake up, are you tired?''"

definition work_line :: ustr where
  "work_line = py ''At work, do you feel tense?''"

definition two_lines :: ustr where
  "two_lines = wake_line @ [10] @ work_line"

definition short_line :: ustr where
  "short_line = py ''When ok?''"

definition engine :: ustr where
  "engine = py ''gpt-4o-mini''"

section \<open>Scoring and classification: verified properties\<close>

lemma score_map_index: "band < 4 \<Longrightarrow> map_of score_map (emoji_options ! band) = Some (int band)"
proof -
  assume "band < 4"
  then consider "band = 0" | "band = 1" | "band = 2" | "band = 3" by linarith
  then show ?thesis
    by cases (simp_all add: emoji_options_def score_map_def py_def)
qed

lemma score_loop_sum:
  "\<forall>k<length qs. band (i + k) < 4 \<and> slider (i + k) = emoji_options ! band (i + k) \<Longrightarrow>
   score_loop slider i qs score = Some (score + (\<Sum>k<length qs. int (band (i + k))))"
proof (induction qs arbitrary: i score)
  case Nil
  then show ?case by simp
next
  case (Cons q qs)
  from Cons.prems have here: "band i < 4" "slider i = emoji_options ! band i"
    by force+
  have rest: "\<forall>k<length qs. band (Suc i + k) < 4 \<and> slider (Suc i + k) = emoji_options ! band (Suc i + k)"
  proof (intro allI impI)
    fix k assume "k < length qs"
    then have "Suc k < length (q # qs)" by simp
    with Cons.prems have "band (i + Suc k) < 4 \<and> slider (i + Suc k) = emoji_options ! band (i + Suc k)"
      by blast
    then show "band (Suc i + k) < 4 \<and> slider (Suc i + k) = emoji_options ! band (Suc i + k)"
      by simp
  qed
  have "score_loop slider i (q # qs) score = score_loop slider (Suc i) qs (score + int (band i))"
    using here by (simp add: score_map_index)
  also have "\<dots> = Some (score + int (band i) + (\<Sum>k<length qs. int (band (Suc i + k))))"
    by (rule Cons.IH [OF rest])
  also have "score + int (band i) + (\<Sum>k<length qs. int (band (Suc i + k)))
      = score + (\<Sum>k<length (q # qs). int (band (i + k)))"
    using sum.lessThan_Suc_shift [of "\<lambda>k. int (band (i + k))" "length qs"] by simp
  finally show ?case .
qed

lemma band_sum_bounds:
  "\<forall>i<n. band i < (4::nat) \<Longrightarrow> 0 \<le> (\<Sum>i<n. int (band i)) \<and> (\<Sum>i<n. int (band i)) \<le> 3 * int n"
proof (induction n)
  case 0
  then show ?case by simp
next
  case (Suc n)
  then have "band n < 4" and "\<forall>i<n. band i < 4" by simp_all
  with Suc.IH show ?case by simp
qed

text \<open>
  Claim C9. A valid answer set selects one band index in \<open>{0, 1, 2, 3}\<close> for each rendered
  item, and the slider returns the option at that index. The loop then finishes without
  \<open>KeyError\<close>, the score is the sum of the selected indices, and it lies between 0 and three
  times the number of items: at most 21 over 7 items and at most 27 over 9 items.
\<close>

theorem score_in_range:
  assumes "\<forall>i<length questions. band i < 4 \<and> slider i = emoji_options ! band i"
  shows "\<exists>score. screener_score questions slider = Some score
           \<and> score = (\<Sum>i<length questions. int (band i))
           \<and> 0 \<le> score \<and> score \<le> 3 * int (length questions)
           \<and> (length questions = 7 \<longrightarrow> score \<le> 21)
           \<and> (length questions = 9 \<longrightarrow> score \<le> 27)"
proof -
  let ?n = "length questions"
  let ?s = "\<Sum>i<?n. int (band i)"
  have "screener_score questions slider = Some ?s"
    unfolding screener_score_def using score_loop_sum [of questions band 0 slider 0] assms
    by simp
  moreover have "0 \<le> ?s \<and> ?s \<le> 3 * int ?n"
    using assms by (intro band_sum_bounds) simp
  ultimately show ?thesis by auto
qed

theorem score_in_range_witness:
  "screener_score (replicate 7 (py ''item?'')) (\<lambda>i. emoji_options ! 3) = Some 21
   \<and> screener_score (replicate 9 (py ''item?'')) (\<lambda>i. emoji_options ! (i mod 4)) = Some 12"
proof -
  have a: "\<forall>i<length (replicate 7 (py ''item?'')). (\<lambda>i. 3::nat) i < 4 \<and> (\<lambda>i. emoji_options ! 3) i = emoji_options ! (\<lambda>i. 3) i"
    by simp
  have b: "\<forall>i<length (replicate 9 (py ''item?'')). (\<lambda>i. i mod 4) i < 4 \<and> (\<lambda>i. emoji_options ! (i mod 4)) i = emoji_options ! (\<lambda>i. i mod 4) i"
    by simp
  have c: "(\<Sum>i<9. int (i mod 4)) = 12"
    by (simp add: lessThan_nat_numeral lessThan_Suc)
  show ?thesis
    using score_in_range [OF a] score_in_range [OF b] c
    by (simp add: lessThan_nat_numeral lessThan_Suc)
qed

lemma gad_table: "0 \<le> s \<Longrightarrow> s \<le> 21 \<Longrightarrow>
    classify_spec (band_table gad_uppers gad_results) s = Some (gad_results s)"
  by (simp add: band_table_def gad_uppers_def gad_results_def)

lemma phq_table: "0 \<le> s \<Longrightarrow> s \<le> 27 \<Longrightarrow>
    classify_spec (band_table phq_uppers phq_results) s = Some (phq_results s)"
  by (simp add: band_table_def phq_uppers_def phq_results_def)

lemma gad_table_combined: "0 \<le> s \<Longrightarrow> s \<le> 21 \<Longrightarrow>
    classify_spec (band_table gad_uppers gad_results_combined) s = Some (gad_results_combined s)"
  by (simp add: band_table_def gad_uppers_def gad_results_combined_def)

lemma phq_table_combined: "0 \<le> s \<Longrightarrow> s \<le> 27 \<Longrightarrow>
    classify_spec (band_table phq_uppers phq_results_combined) s = Some (phq_results_combined s)"
  by (simp add: band_table_def phq_uppers_def phq_results_combined_def)

lemma uppers_ascending:
  "sorted_wrt (<) gad_uppers \<and> last gad_uppers = 21 \<and> sorted_wrt (<) phq_uppers \<and> last phq_uppers = 27"
  by (simp add: gad_uppers_def phq_uppers_def)

lemma labels_distinct:
  "distinct (map gad_results gad_uppers)" "distinct (map phq_results phq_uppers)"
  "distinct (map gad_results_combined gad_uppers)" "distinct (map phq_results_combined phq_uppers)"
  by (simp_all add: gad_uppers_def phq_uppers_def gad_results_def phq_results_def
      gad_results_combined_def phq_results_combined_def py_def)

lemma gad_examples:
  "gad_results 0 = (St_success, py ''Minimal anxiety'')"
  "fst (gad_results 21) = St_error" "startswith (snd (gad_results 21)) (py ''Severe anxiety'')"
  "gad_results_combined 0 = (St_success, py ''Minimal anxiety'')"
  "fst (gad_results_combined 21) = St_error"
  "startswith (snd (gad_results_combined 21)) (py ''Severe anxiety'')"
  by (simp_all add: gad_results_def gad_results_combined_def py_def)

text \<open>
  Claim C8. Severity classification is a total function of the score. On \<open>[0, 21]\<close> for the
  anxiety screener and on \<open>[0, 27]\<close> for the depression screener the status box the code shows
  is the one the specification's lookup finds in the band table with the upper bounds
  4, 9, 14, 21 (and 4, 9, 14, 19, 27): the bounds ascend strictly, end at the maximum, and the
  boxes of the bands are pairwise different, so each score has exactly one band. Score 0 shows
  "Minimal anxiety"; score 21 shows the error box whose message begins with "Severe anxiety".
\<close>

theorem severity_classification:
  "(0 \<le> s \<and> s \<le> 21 \<longrightarrow>
      classify_spec (band_table gad_uppers gad_results) s = Some (gad_results s)
      \<and> classify_spec (band_table gad_uppers gad_results_combined) s
          = Some (gad_results_combined s))
   \<and> (0 \<le> s \<and> s \<le> 27 \<longrightarrow>
      classify_spec (band_table phq_uppers phq_results) s = Some (phq_results s)
      \<and> classify_spec (band_table phq_uppers phq_results_combined) s
          = Some (phq_results_combined s))
   \<and> sorted_wrt (<) gad_uppers \<and> last gad_uppers = 21
   \<and> sorted_wrt (<) phq_uppers \<and> last phq_uppers = 27
   \<and> distinct (map gad_results gad_uppers) \<and> distinct (map phq_results phq_uppers)
   \<and> distinct (map gad_results_combined gad_uppers)
   \<and> distinct (map phq_results_combined phq_uppers)
   \<and> gad_results 0 = (St_success, py ''Minimal anxiety'')
   \<and> fst (gad_results 21) = St_error
   \<and> startswith (snd (gad_results 21)) (py ''Severe anxiety'')
   \<and> gad_results_combined 0 = (St_success, py ''Minimal anxiety'')
   \<and> fst (gad_results_combined 21) = St_error
   \<and> startswith (snd (gad_results_combined 21)) (py ''Severe anxiety'')"
  using gad_table [of s] phq_table [of s] gad_table_combined [of s] phq_table_combined [of s]
    uppers_ascending labels_distinct gad_examples
  by blast

theorem severity_classification_witness:
  "classify_spec (band_table gad_uppers gad_results) 12 = Some (gad_results 12)
   \<and> classify_spec (band_table phq_uppers phq_results_combined) 12
       = Some (phq_results_combined 12)
   \<and> classify_spec (band_table gad_uppers gad_results) 12
       = Some (St_warning, py ''Moderate anxiety '' @ [8212] @ py '' consider professional support.'')"
proof -
  have g: "classify_spec (band_table gad_uppers gad_results) 12
       = Some (St_warning, py ''Moderate anxiety '' @ [8212] @ py '' consider professional support.'')"
    by (simp add: band_table_def gad_uppers_def gad_results_def)
  show ?thesis using severity_classification [of 12] g by simp
qed

text \<open>
  Claim C7. For every pair of integer scores (anxiety \<open>a\<close>, depression \<open>d\<close>) exactly one
  badge is shown, decided in priority order: the low tier ("Mindful Mover") iff both scores
  are below 10; otherwise the mid tier ("Resilience Builder") iff one of the scores lies in
  \<open>[10, 15)\<close>; otherwise the high tier ("Courageous Warrior"). Depression 12 with anxiety 8
  gives the mid tier. Both programs agree.
\<close>

theorem badge_classification:
  "(badge a d = mindful_mover \<longleftrightarrow> d < 10 \<and> a < 10)
   \<and> (badge a d = resilience_builder \<longleftrightarrow>
        \<not> (d < 10 \<and> a < 10) \<and> ((10 \<le> d \<and> d < 15) \<or> (10 \<le> a \<and> a < 15)))
   \<and> (badge a d = courageous_warrior \<longleftrightarrow>
        \<not> (d < 10 \<and> a < 10) \<and> \<not> ((10 \<le> d \<and> d < 15) \<or> (10 \<le> a \<and> a < 15)))
   \<and> (badge_combined a d = mindful_mover_combined \<longleftrightarrow> d < 10 \<and> a < 10)
   \<and> (badge_combined a d = resilience_builder_combined \<longleftrightarrow>
        \<not> (d < 10 \<and> a < 10) \<and> ((10 \<le> d \<and> d < 15) \<or> (10 \<le> a \<and> a < 15)))
   \<and> (badge_combined a d = courageous_warrior_combined \<longleftrightarrow>
        \<not> (d < 10 \<and> a < 10) \<and> \<not> ((10 \<le> d \<and> d < 15) \<or> (10 \<le> a \<and> a < 15)))
   \<and> badge 8 12 = resilience_builder \<and> badge_combined 8 12 = resilience_builder_combined
   \<and> contains (snd resilience_builder) (py ''Resilience Builder'')
   \<and> contains (snd resilience_builder_combined) (py ''Resilience Builder'')"
proof -
  have d1: "fst mindful_mover \<noteq> fst resilience_builder" "fst mindful_mover \<noteq> fst courageous_warrior"
    "fst resilience_builder \<noteq> fst courageous_warrior"
    by (simp_all add: mindful_mover_def resilience_builder_def courageous_warrior_def)
  have d2: "fst mindful_mover_combined \<noteq> fst resilience_builder_combined"
    "fst mindful_mover_combined \<noteq> fst courageous_warrior_combined"
    "fst resilience_builder_combined \<noteq> fst courageous_warrior_combined"
    by (simp_all add: mindful_mover_combined_def resilience_builder_combined_def
        courageous_warrior_combined_def)
  have n1: "mindful_mover \<noteq> resilience_builder" "mindful_mover \<noteq> courageous_warrior"
    "resilience_builder \<noteq> courageous_warrior" "resilience_builder \<noteq> mindful_mover"
    "courageous_warrior \<noteq> mindful_mover" "courageous_warrior \<noteq> resilience_builder"
    using d1 by force+
  have n2: "mindful_mover_combined \<noteq> resilience_builder_combined"
    "mindful_mover_combined \<noteq> courageous_warrior_combined"
    "resilience_builder_combined \<noteq> courageous_warrior_combined"
    "resilience_builder_combined \<noteq> mindful_mover_combined"
    "courageous_warrior_combined \<noteq> mindful_mover_combined"
    "courageous_warrior_combined \<noteq> resilience_builder_combined"
    using d2 by force+
  have c1: "contains (snd resilience_builder) (py ''Resilience Builder'')"
    by (simp add: resilience_builder_def py_def)
  have c2: "contains (snd resilience_builder_combined) (py ''Resilience Builder'')"
    by (simp add: resilience_builder_combined_def py_def)
  show ?thesis
    using n1 n2 c1 c2 by (simp add: badge_def badge_combined_def)
qed

theorem badge_classification_witness:
  "badge 8 12 = resilience_builder \<and> badge 3 4 = mindful_mover
   \<and> badge 20 12 = resilience_builder \<and> badge 9 15 = courageous_warrior
   \<and> badge_combined 15 15 = courageous_warrior_combined"
  using badge_classification [of 8 12] badge_classification [of 3 4]
    badge_classification [of 20 12] badge_classification [of 9 15]
    badge_classification [of 15 15]
  by simp

section \<open>The rewriter: one attempt and the loops\<close>

subsection \<open>One attempt\<close>

lemma attempt_calls:
  "calls (snd (attempt L create prompt expected model_name strict st))
     = calls st @ [(model_name, strict)]"
  by (simp add: attempt_def Let_def split: response.split)

lemma take_full_iff: "length (take n xs) = n \<longleftrightarrow> n \<le> length xs"
  by auto

lemma attempt_accepts:
  assumes "create (length (calls st)) model_name prompt expected strict = Content c"
    and "expected \<le> length (scenario_lines L (reply_text c))"
  shows "attempt L create prompt expected model_name strict st
     = (Some (take expected (scenario_lines L (reply_text c)),
              \<lparr>used_model = Some model_name, ai_ok = True,
                reason = py ''scenario-ok (strict='' @ str_bool strict @ py '')''\<rparr>),
        st\<lparr>calls := calls st @ [(model_name, strict)],
           cur_meta := \<lparr>used_model = Some model_name, ai_ok = True,
                reason = py ''scenario-ok (strict='' @ str_bool strict @ py '')''\<rparr>\<rparr>)"
  using assms by (simp add: attempt_def Let_def)

lemma attempt_rejects:
  assumes "create (length (calls st)) model_name prompt expected strict = Content c"
    and "length (scenario_lines L (reply_text c)) < expected"
  shows "attempt L create prompt expected model_name strict st
     = (None,
        st\<lparr>calls := calls st @ [(model_name, strict)],
           cur_meta := \<lparr>used_model = Some model_name, ai_ok = False,
                reason = py ''got '' @ str_nat (length (scenario_lines L (reply_text c)))
                  @ py '' valid scenario lines (strict='' @ str_bool strict @ py '')''\<rparr>,
           sleeps := Suc (sleeps st)\<rparr>)"
  using assms by (simp add: attempt_def Let_def)

lemma attempt_raises:
  assumes "create (length (calls st)) model_name prompt expected strict = Raises e"
  shows "attempt L create prompt expected model_name strict st
     = (None,
        st\<lparr>calls := calls st @ [(model_name, strict)],
           cur_meta := \<lparr>used_model = Some model_name, ai_ok = False,
                reason = py ''error: '' @ e\<rparr>\<rparr>)"
  using assms by (simp add: attempt_def Let_def)

lemma attempt_Some_iff:
  "(\<exists>r. fst (attempt L create prompt expected (fst a) (snd a) st) = Some r)
     \<longleftrightarrow> enough_lines L expected (answer create prompt expected (length (calls st)) a)"
  by (auto simp add: attempt_def Let_def enough_lines_def answer_def min_def
      split: response.split if_splits)

lemma attempt_None_meta:
  "fst (attempt L create prompt expected model_name strict st) = None \<Longrightarrow>
     \<not> ai_ok (cur_meta (snd (attempt L create prompt expected model_name strict st)))"
  by (auto simp add: attempt_def Let_def split: response.splits if_splits)

lemma attempt_Some_result:
  "attempt L create prompt expected model_name strict st = (Some (qs, m), st') \<Longrightarrow>
     ai_ok m \<and> used_model m = Some model_name \<and> length qs = expected
     \<and> (\<exists>c. create (length (calls st)) model_name prompt expected strict = Content c
           \<and> expected \<le> length (scenario_lines L (reply_text c))
           \<and> qs = take expected (scenario_lines L (reply_text c)))"
  by (auto simp add: attempt_def Let_def split: response.splits if_splits)

subsection \<open>The loops\<close>

lemma model_loop_flat:
  "model_loop L create prompt expected models st
     = attempts_loop L create prompt expected (schedule models) st"
  by (induction models arbitrary: st) (auto simp: schedule_def split: prod.splits option.splits)

lemma attempts_loop_None:
  "attempts_loop L create prompt expected as st = (None, st') \<Longrightarrow>
     calls st' = calls st @ as
     \<and> (\<forall>k<length as. \<not> enough_lines L expected
                         (answer create prompt expected (length (calls st) + k) (as ! k)))
     \<and> (as \<noteq> [] \<longrightarrow> \<not> ai_ok (cur_meta st'))
     \<and> (as = [] \<longrightarrow> st' = st)"
proof (induction as arbitrary: st)
  case Nil
  then show ?case by simp
next
  case (Cons a as)
  obtain r st1 where at: "attempt L create prompt expected (fst a) (snd a) st = (r, st1)"
    by (cases "attempt L create prompt expected (fst a) (snd a) st")
  with Cons.prems have r: "r = None" and rest: "attempts_loop L create prompt expected as st1 = (None, st')"
    by (auto split: option.splits)
  have c1: "calls st1 = calls st @ [a]"
    using attempt_calls [of L create prompt expected "fst a" "snd a" st] at by simp
  have no: "\<not> enough_lines L expected (answer create prompt expected (length (calls st)) a)"
    using attempt_Some_iff [of L create prompt expected a st] at r by simp
  have m1: "\<not> ai_ok (cur_meta st1)"
    using attempt_None_meta [of L create prompt expected "fst a" "snd a" st] at r by simp
  note ih = Cons.IH [OF rest]
  have "calls st' = calls st @ a # as" using ih c1 by simp
  moreover have "\<forall>k<length (a # as). \<not> enough_lines L expected
                         (answer create prompt expected (length (calls st) + k) ((a # as) ! k))"
  proof (intro allI impI)
    fix k assume k: "k < length (a # as)"
    show "\<not> enough_lines L expected
            (answer create prompt expected (length (calls st) + k) ((a # as) ! k))"
    proof (cases k)
      case 0
      then show ?thesis using no by simp
    next
      case (Suc j)
      with k have "j < length as" by simp
      with ih have "\<not> enough_lines L expected
            (answer create prompt expected (length (calls st1) + j) (as ! j))" by blast
      then show ?thesis using Suc c1 by simp
    qed
  qed
  moreover have "\<not> ai_ok (cur_meta st')"
    using ih m1 by (cases "as = []") auto
  ultimately show ?case by simp
qed

lemma attempts_loop_Some:
  "attempts_loop L create prompt expected as st = (Some (qs, m), st') \<Longrightarrow>
     \<exists>k<length as.
        calls st' = calls st @ take (Suc k) as
        \<and> (\<forall>j<k. \<not> enough_lines L expected
                         (answer create prompt expected (length (calls st) + j) (as ! j)))
        \<and> ai_ok m \<and> used_model m = Some (fst (as ! k)) \<and> length qs = expected
        \<and> (\<exists>c. answer create prompt expected (length (calls st) + k) (as ! k) = Content c
              \<and> expected \<le> length (scenario_lines L (reply_text c))
              \<and> qs = take expected (scenario_lines L (reply_text c)))"
proof (induction as arbitrary: st)
  case Nil
  then show ?case by simp
next
  case (Cons a as)
  obtain r st1 where at: "attempt L create prompt expected (fst a) (snd a) st = (r, st1)"
    by (cases "attempt L create prompt expected (fst a) (snd a) st")
  have c1: "calls st1 = calls st @ [a]"
    using attempt_calls [of L create prompt expected "fst a" "snd a" st] at by simp
  show ?case
  proof (cases r)
    case (Some res)
    with Cons.prems at have eq: "res = (qs, m)" "st1 = st'" by auto
    have "ai_ok m \<and> used_model m = Some (fst a) \<and> length qs = expected
     \<and> (\<exists>c. create (length (calls st)) (fst a) prompt expected (snd a) = Content c
           \<and> expected \<le> length (scenario_lines L (reply_text c))
           \<and> qs = take expected (scenario_lines L (reply_text c)))"
      using attempt_Some_result [of L create prompt expected "fst a" "snd a" st qs m st'] at Some eq
      by simp
    then have "calls st' = calls st @ take (Suc 0) (a # as)
        \<and> (\<forall>j<0. \<not> enough_lines L expected
                         (answer create prompt expected (length (calls st) + j) ((a # as) ! j)))
        \<and> ai_ok m \<and> used_model m = Some (fst ((a # as) ! 0)) \<and> length qs = expected
        \<and> (\<exists>c. answer create prompt expected (length (calls st) + 0) ((a # as) ! 0) = Content c
              \<and> expected \<le> length (scenario_lines L (reply_text c))
              \<and> qs = take expected (scenario_lines L (reply_text c)))"
      using c1 eq by (simp add: answer_def)
    then show ?thesis by (intro exI [of _ 0]) simp
  next
    case None
    with Cons.prems at have rest: "attempts_loop L create prompt expected as st1 = (Some (qs, m), st')"
      by simp
    have no: "\<not> enough_lines L expected (answer create prompt expected (length (calls st)) a)"
      using attempt_Some_iff [of L create prompt expected a st] at None by simp
    from Cons.IH [OF rest] obtain k where k: "k < length as"
      and ck: "calls st' = calls st1 @ take (Suc k) as"
      and fk: "\<forall>j<k. \<not> enough_lines L expected
                         (answer create prompt expected (length (calls st1) + j) (as ! j))"
      and rk: "ai_ok m \<and> used_model m = Some (fst (as ! k)) \<and> length qs = expected
        \<and> (\<exists>c. answer create prompt expected (length (calls st1) + k) (as ! k) = Content c
              \<and> expected \<le> length (scenario_lines L (reply_text c))
              \<and> qs = take expected (scenario_lines L (reply_text c)))"
      by blast
    have f: "\<forall>j<Suc k. \<not> enough_lines L expected
                         (answer create prompt expected (length (calls st) + j) ((a # as) ! j))"
    proof (intro allI impI)
      fix j assume j: "j < Suc k"
      show "\<not> enough_lines L expected
                         (answer create prompt expected (length (calls st) + j) ((a # as) ! j))"
      proof (cases j)
        case 0
        then show ?thesis using no by simp
      next
        case (Suc i)
        with j have "i < k" by simp
        with fk have "\<not> enough_lines L expected
                         (answer create prompt expected (length (calls st1) + i) (as ! i))" by blast
        then show ?thesis using Suc c1 by simp
      qed
    qed
    have "Suc k < length (a # as)" using k by simp
    moreover have "calls st' = calls st @ take (Suc (Suc k)) (a # as)" using ck c1 by simp
    moreover have "ai_ok m \<and> used_model m = Some (fst ((a # as) ! Suc k)) \<and> length qs = expected
        \<and> (\<exists>c. answer create prompt expected (length (calls st) + Suc k) ((a # as) ! Suc k) = Content c
              \<and> expected \<le> length (scenario_lines L (reply_text c))
              \<and> qs = take expected (scenario_lines L (reply_text c)))"
      using rk c1 by simp
    ultimately show ?thesis using f by blast
  qed
qed

subsection \<open>A whole call\<close>

lemma models_of_nonempty: "models_of mc \<noteq> []"
  by (simp add: models_of_def DEFAULT_MODELS_def split: option.split)

lemma schedule_length: "length (schedule models) = 2 * length models"
  by (induction models) (simp_all add: schedule_def)

lemma schedule_nth:
  "i < length models \<Longrightarrow>
     schedule models ! (2 * i) = (models ! i, False)
     \<and> schedule models ! (2 * i + 1) = (models ! i, True)"
proof (induction models arbitrary: i)
  case Nil
  then show ?case by simp
next
  case (Cons m ms)
  have unfold: "schedule (m # ms) = (m, False) # (m, True) # schedule ms"
    by (simp add: schedule_def)
  show ?case
  proof (cases i)
    case 0
    then show ?thesis by (simp add: unfold)
  next
    case (Suc j)
    with Cons.prems have "j < length ms" by simp
    from Cons.IH [OF this] show ?thesis using Suc by (simp add: unfold)
  qed
qed

text \<open>What a call computes when it does not answer from the cache.\<close>

lemma generate_hit:
  "session_state (cache_key str_hash prompt (length defaults)) = Some cached \<Longrightarrow>
   ai_generate_questions L str_hash create session_state prompt defaults mc False
     = \<lparr>returned = cached, cache_after = session_state, calls_made = [], sleeps_made = 0\<rparr>"
  by (simp add: ai_generate_questions_def Let_def)

lemma generate_accepted:
  assumes "force_refresh \<or> session_state (cache_key str_hash prompt (length defaults)) = None"
    and "attempts_loop L create prompt (length defaults) (schedule (models_of mc)) start
          = (Some (qs, m), st)"
  shows "ai_generate_questions L str_hash create session_state prompt defaults mc force_refresh
     = \<lparr>returned = (qs, m),
        cache_after = session_state(cache_key str_hash prompt (length defaults) \<mapsto> (qs, m)),
        calls_made = calls st, sleeps_made = sleeps st\<rparr>"
  using assms by (auto simp add: ai_generate_questions_def Let_def model_loop_flat start_def)

lemma generate_fallback:
  assumes "force_refresh \<or> session_state (cache_key str_hash prompt (length defaults)) = None"
    and "attempts_loop L create prompt (length defaults) (schedule (models_of mc)) start
          = (None, st)"
  shows "ai_generate_questions L str_hash create session_state prompt defaults mc force_refresh
     = \<lparr>returned = (map (fix_default L) defaults, cur_meta st),
        cache_after = session_state(cache_key str_hash prompt (length defaults)
                        \<mapsto> (map (fix_default L) defaults, cur_meta st)),
        calls_made = calls st, sleeps_made = sleeps st\<rparr>"
  using assms by (auto simp add: ai_generate_questions_def Let_def model_loop_flat start_def)

lemma schedule_nonempty: "schedule (models_of mc) \<noteq> []"
  using models_of_nonempty [of mc] schedule_length [of "models_of mc"]
  by (cases "schedule (models_of mc)") auto

lemma schedule_hd: "models \<noteq> [] \<Longrightarrow> hd (schedule models) = (hd models, False)"
  by (cases models) (simp_all add: schedule_def)

lemma start_calls: "calls start = [] \<and> sleeps start = 0"
  by (simp add: start_def)

lemma generate_trace:
  fixes L str_hash create session_state prompt defaults mc force_refresh
  defines "out \<equiv> ai_generate_questions L str_hash create session_state prompt defaults mc
                     force_refresh"
    and "sched \<equiv> schedule (models_of mc)"
    and "key \<equiv> cache_key str_hash prompt (length defaults)"
  defines "n \<equiv> length (calls_made out)"
  assumes miss: "force_refresh \<or> session_state key = None"
  shows "calls_made out = take n sched \<and> 0 < n \<and> n \<le> length sched
     \<and> (\<forall>j. Suc j < n \<longrightarrow>
           \<not> enough_lines L (length defaults) (answer create prompt (length defaults) j (sched ! j)))
     \<and> cache_after out = session_state(key \<mapsto> returned out)
     \<and> (enough_lines L (length defaults)
            (answer create prompt (length defaults) (n - 1) (sched ! (n - 1))) \<longrightarrow>
          (\<exists>c. answer create prompt (length defaults) (n - 1) (sched ! (n - 1)) = Content c
              \<and> length defaults \<le> length (scenario_lines L (reply_text c))
              \<and> fst (returned out) = take (length defaults) (scenario_lines L (reply_text c)))
          \<and> ai_ok (snd (returned out))
          \<and> used_model (snd (returned out)) = Some (fst (sched ! (n - 1))))
     \<and> (\<not> enough_lines L (length defaults)
            (answer create prompt (length defaults) (n - 1) (sched ! (n - 1))) \<longrightarrow>
          n = length sched \<and> fst (returned out) = map (fix_default L) defaults
          \<and> \<not> ai_ok (snd (returned out)))"
proof -
  obtain res st where run:
    "attempts_loop L create prompt (length defaults) sched start = (res, st)"
    by (cases "attempts_loop L create prompt (length defaults) sched start")
  have ne: "sched \<noteq> []" unfolding sched_def by (rule schedule_nonempty)
  show ?thesis
  proof (cases res)
    case None
    with run have r: "attempts_loop L create prompt (length defaults) (schedule (models_of mc)) start
        = (None, st)" by (simp add: sched_def)
    have out: "out = \<lparr>returned = (map (fix_default L) defaults, cur_meta st),
        cache_after = session_state(key \<mapsto> (map (fix_default L) defaults, cur_meta st)),
        calls_made = calls st, sleeps_made = sleeps st\<rparr>"
      unfolding out_def key_def using miss r
      by (intro generate_fallback) (simp_all add: key_def)
    from attempts_loop_None [OF r] have
      c: "calls st = sched"
      and f: "\<forall>k<length sched. \<not> enough_lines L (length defaults)
                         (answer create prompt (length defaults) k (sched ! k))"
      and m: "\<not> ai_ok (cur_meta st)"
      using ne by (simp_all add: sched_def start_calls)
    have n: "n = length sched" using out c by (simp add: n_def)
    have last: "n - 1 < length sched" using n ne by simp
    show ?thesis using out c f m n ne last by auto
  next
    case (Some acc)
    obtain qs m where acc: "acc = (qs, m)" by (cases acc)
    with Some run have r: "attempts_loop L create prompt (length defaults) (schedule (models_of mc)) start
        = (Some (qs, m), st)" by (simp add: sched_def)
    have out: "out = \<lparr>returned = (qs, m), cache_after = session_state(key \<mapsto> (qs, m)),
        calls_made = calls st, sleeps_made = sleeps st\<rparr>"
      unfolding out_def key_def using miss r
      by (intro generate_accepted) (simp_all add: key_def)
    from attempts_loop_Some [OF r] obtain k where k: "k < length sched"
      and c: "calls st = take (Suc k) sched"
      and f: "\<forall>j<k. \<not> enough_lines L (length defaults)
                         (answer create prompt (length defaults) j (sched ! j))"
      and ok: "ai_ok m" "used_model m = Some (fst (sched ! k))"
      and cont: "\<exists>c. answer create prompt (length defaults) k (sched ! k) = Content c
              \<and> length defaults \<le> length (scenario_lines L (reply_text c))
              \<and> qs = take (length defaults) (scenario_lines L (reply_text c))"
      by (auto simp add: sched_def start_calls)
    have n: "n = Suc k" using out c k by (simp add: n_def)
    have e: "enough_lines L (length defaults)
            (answer create prompt (length defaults) k (sched ! k))"
      using cont by (auto simp add: enough_lines_def)
    show ?thesis using out c f ok cont n k e by auto
  qed
qed

lemma cache_written:
  "cache_after (ai_generate_questions L str_hash create session_state prompt defaults mc force)
      (cache_key str_hash prompt (length defaults))
   = Some (returned (ai_generate_questions L str_hash create session_state prompt defaults mc force))"
  by (auto simp add: ai_generate_questions_def Let_def split: prod.splits option.splits)

subsection \<open>The examples, evaluated\<close>

lemmas text_defs = py_def strip_def lstrip_def rstrip_def split_nl_def lower_def isspace_def
  no_upper_def LIST_MARKERS_def SCENARIO_TRIGGERS_def looks_situational_def cleaned_lines_def
  scenario_lines_def reply_text_def Let_def

lemmas example_defs = tired_def wake_line_def work_line_def two_lines_def short_line_def

lemma two_lines_valid:
  "scenario_lines no_upper (reply_text (Some two_lines)) = [wake_line, work_line]"
  by (simp add: text_defs example_defs)

lemma no_content_valid: "scenario_lines L (reply_text None) = []"
  by (simp add: text_defs)

lemma short_line_cleaned:
  "cleaned_lines (reply_text (Some (py ''1. '' @ short_line @ [10] @ py ''- '' @ work_line)))
     = [short_line, work_line]"
  by (simp add: text_defs example_defs)

lemma short_line_situational: "looks_situational no_upper short_line \<and> length short_line = 8"
  by (simp add: text_defs example_defs)

lemma work_line_situational: "looks_situational no_upper work_line \<and> length work_line = 27"
  by (simp add: text_defs example_defs)

lemma wake_line_situational: "looks_situational no_upper wake_line"
  by (simp add: text_defs example_defs)

lemma tired_fixed:
  "\<not> looks_situational no_upper tired
   \<and> fix_default no_upper tired = py ''When you think about your day, Are you tired?''"
  by (simp add: fix_default_def text_defs example_defs)

lemmas run_defs = ai_generate_questions_def attempt_def Let_def models_of_def DEFAULT_MODELS_def
  cache_key_def hash0_def reply_always_def reply_nth_def start_def str_bool_def py_def

lemma run_accepts_first:
  "ai_generate_questions no_upper hash0 (reply_always (Content (Some two_lines))) session_state
       (py ''Rewrite'') [tired] (Some [engine]) True
   = \<lparr>returned = ([wake_line],
          \<lparr>used_model = Some engine, ai_ok = True, reason = py ''scenario-ok (strict=False)''\<rparr>),
       cache_after = session_state((0, 1) \<mapsto> ([wake_line],
          \<lparr>used_model = Some engine, ai_ok = True, reason = py ''scenario-ok (strict=False)''\<rparr>)),
       calls_made = [(engine, False)], sleeps_made = 0\<rparr>"
  by (simp add: run_defs two_lines_valid)

lemma run_error_then_accepts:
  "ai_generate_questions no_upper hash0
       (reply_nth [Raises (py ''rate limit''), Content (Some two_lines)]) Map.empty
       (py ''Rewrite'') [tired] (Some [engine]) False
   = \<lparr>returned = ([wake_line],
          \<lparr>used_model = Some engine, ai_ok = True, reason = py ''scenario-ok (strict=True)''\<rparr>),
       cache_after = [(0, 1) \<mapsto> ([wake_line],
          \<lparr>used_model = Some engine, ai_ok = True, reason = py ''scenario-ok (strict=True)''\<rparr>)],
       calls_made = [(engine, False), (engine, True)], sleeps_made = 0\<rparr>"
  by (simp add: run_defs two_lines_valid)

lemma run_all_raise:
  "ai_generate_questions no_upper hash0 (reply_always (Raises (py ''rate limit''))) Map.empty
       (py ''Rewrite'') [tired] None False
   = \<lparr>returned = ([py ''When you think about your day, Are you tired?''],
          \<lparr>used_model = Some (py ''gpt-3.5-turbo''), ai_ok = False,
            reason = py ''error: rate limit''\<rparr>),
       cache_after = [(0, 1) \<mapsto> ([py ''When you think about your day, Are you tired?''],
          \<lparr>used_model = Some (py ''gpt-3.5-turbo''), ai_ok = False,
            reason = py ''error: rate limit''\<rparr>)],
       calls_made = schedule DEFAULT_MODELS, sleeps_made = 0\<rparr>"
  using tired_fixed by (simp add: run_defs schedule_def)

lemma run_all_rejected:
  "ai_generate_questions no_upper hash0 (reply_always (Content None)) Map.empty
       (py ''Rewrite'') [tired] (Some [engine]) False
   = \<lparr>returned = ([py ''When you think about your day, Are you tired?''],
          \<lparr>used_model = Some engine, ai_ok = False,
            reason = py ''got 0 valid scenario lines (strict=True)''\<rparr>),
       cache_after = [(0, 1) \<mapsto> ([py ''When you think about your day, Are you tired?''],
          \<lparr>used_model = Some engine, ai_ok = False,
            reason = py ''got 0 valid scenario lines (strict=True)''\<rparr>)],
       calls_made = [(engine, False), (engine, True)], sleeps_made = 2\<rparr>"
  using tired_fixed by (simp add: run_defs no_content_valid str_nat.simps)

subsection \<open>The fallback, the cache invariant, and runs of errors\<close>

lemma contains_startswith: "startswith s t \<Longrightarrow> contains s t"
  by (cases s; cases t) simp_all

lemma lower_when:
  "lower L (py ''When you think about your day, '' @ rest)
     = py ''when you think about your day, ''
       @ lower_from L (py ''When you think about your day, '') rest"
  by (simp add: lower_def py_def)

lemma fix_default_situational: "looks_situational L (fix_default L q)"
proof (cases "looks_situational L q")
  case True
  then show ?thesis by (simp add: fix_default_def)
next
  case False
  have "startswith (py ''when you think about your day, ''
       @ lower_from L (py ''When you think about your day, '') (rstrip [63] q @ [63]))
       (py ''when '')"
    by (simp add: py_def)
  then have "contains (lower L (py ''When you think about your day, '' @ rstrip [63] q @ [63]))
       (py ''when '')"
    by (simp only: lower_when contains_startswith)
  then have "list_ex (contains (lower L (py ''When you think about your day, '' @ rstrip [63] q @ [63])))
       SCENARIO_TRIGGERS"
    by (simp add: SCENARIO_TRIGGERS_def)
  then show ?thesis using False
    by (simp add: fix_default_def looks_situational_def Let_def)
qed

lemma scenario_lines_situational:
  "x \<in> set (take n (scenario_lines L content)) \<Longrightarrow> looks_situational L x"
  by (auto dest: in_set_takeD simp add: scenario_lines_def)

lemma cache_ok_update:
  assumes "cache_ok L session_state" "length qs = n" "list_all (looks_situational L) qs"
  shows "cache_ok L (session_state((h, n) \<mapsto> (qs, m)))"
  using assms unfolding cache_ok_def by auto

lemma cache_ok_empty: "cache_ok L Map.empty"
  by (simp add: cache_ok_def)

lemma generated_sized:
  assumes "force_refresh \<or> session_state (cache_key str_hash prompt (length defaults)) = None"
  shows "length (fst (returned (ai_generate_questions L str_hash create session_state prompt
            defaults mc force_refresh))) = length defaults
     \<and> list_all (looks_situational L) (fst (returned (ai_generate_questions L str_hash create
            session_state prompt defaults mc force_refresh)))"
proof -
  let ?out = "ai_generate_questions L str_hash create session_state prompt defaults mc force_refresh"
  let ?N = "length defaults"
  let ?sched = "schedule (models_of mc)"
  let ?last = "answer create prompt ?N (length (calls_made ?out) - 1)
                 (?sched ! (length (calls_made ?out) - 1))"
  note t = generate_trace [of force_refresh session_state str_hash prompt defaults L create mc]
  show ?thesis
  proof (cases "enough_lines L ?N ?last")
    case True
    with t assms obtain c where c: "?N \<le> length (scenario_lines L (reply_text c))"
      "fst (returned ?out) = take ?N (scenario_lines L (reply_text c))" by blast
    then show ?thesis
      by (auto simp add: list_all_iff dest: scenario_lines_situational)
  next
    case False
    with t assms have "fst (returned ?out) = map (fix_default L) defaults" by blast
    then show ?thesis
      by (simp add: list_all_iff fix_default_situational)
  qed
qed

lemma attempts_loop_all_raise:
  "\<forall>k<length as. \<exists>e. answer create prompt expected (length (calls st) + k) (as ! k) = Raises e \<Longrightarrow>
   \<exists>st'. attempts_loop L create prompt expected as st = (None, st')
       \<and> sleeps st' = sleeps st \<and> calls st' = calls st @ as
       \<and> (as \<noteq> [] \<longrightarrow> (\<exists>e. answer create prompt expected (length (calls st) + length as - 1)
                                   (last as) = Raises e
                              \<and> cur_meta st' = \<lparr>used_model = Some (fst (last as)), ai_ok = False,
                                                 reason = py ''error: '' @ e\<rparr>))"
proof (induction as arbitrary: st)
  case Nil
  then show ?case by simp
next
  case (Cons a as)
  from Cons.prems have "\<exists>e. answer create prompt expected (length (calls st) + 0) ((a # as) ! 0) = Raises e"
    by blast
  then obtain e where e: "create (length (calls st)) (fst a) prompt expected (snd a) = Raises e"
    by (auto simp add: answer_def)
  let ?st1 = "st\<lparr>calls := calls st @ [(fst a, snd a)],
           cur_meta := \<lparr>used_model = Some (fst a), ai_ok = False, reason = py ''error: '' @ e\<rparr>\<rparr>"
  have at: "attempt L create prompt expected (fst a) (snd a) st = (None, ?st1)"
    using e by (rule attempt_raises)
  have rest: "\<forall>k<length as. \<exists>e. answer create prompt expected (length (calls ?st1) + k) (as ! k) = Raises e"
  proof (intro allI impI)
    fix k assume "k < length as"
    then have "Suc k < length (a # as)" by simp
    with Cons.prems have "\<exists>e. answer create prompt expected (length (calls st) + Suc k) ((a # as) ! Suc k) = Raises e"
      by blast
    then show "\<exists>e. answer create prompt expected (length (calls ?st1) + k) (as ! k) = Raises e"
      by simp
  qed
  from Cons.IH [OF rest] obtain st' where
    r: "attempts_loop L create prompt expected as ?st1 = (None, st')"
    and s: "sleeps st' = sleeps ?st1" and c: "calls st' = calls ?st1 @ as"
    and m: "as \<noteq> [] \<longrightarrow> (\<exists>e. answer create prompt expected (length (calls ?st1) + length as - 1)
                                   (last as) = Raises e
                              \<and> cur_meta st' = \<lparr>used_model = Some (fst (last as)), ai_ok = False,
                                                 reason = py ''error: '' @ e\<rparr>)"
    by blast
  have run: "attempts_loop L create prompt expected (a # as) st = (None, st')"
    using at r by simp
  have meta: "\<exists>e. answer create prompt expected (length (calls st) + length (a # as) - 1)
                                   (last (a # as)) = Raises e
                              \<and> cur_meta st' = \<lparr>used_model = Some (fst (last (a # as))), ai_ok = False,
                                                 reason = py ''error: '' @ e\<rparr>"
  proof (cases "as = []")
    case True
    with r have "st' = ?st1" by simp
    then show ?thesis using True e by (auto simp add: answer_def)
  next
    case False
    with m show ?thesis by simp
  qed
  show ?case using run s c meta by simp
qed

section \<open>The rewriter: verified properties\<close>

text \<open>
  Claim C10. A line of a reply is among the validated lines exactly when it is one of the
  cleaned lines (stripped, list markers removed, stripped again), is longer than 10 code
  points and looks situational. So a cleaned line of 10 code points or fewer is excluded even
  when it holds a question mark and a marker, and every question an attempt returns is longer
  than 10, holds a question mark and, lowered, holds a marker.
\<close>

theorem validated_line_length:
  "(q \<in> set (scenario_lines L content) \<longleftrightarrow>
      q \<in> set (cleaned_lines content) \<and> 10 < length q \<and> looks_situational L q)
   \<and> (length q \<le> 10 \<longrightarrow> q \<notin> set (scenario_lines L content))
   \<and> (attempt L create prompt expected model_name strict st = (Some (questions, m), st')
        \<longrightarrow> (\<forall>x \<in> set questions. 10 < length x \<and> 63 \<in> set x
               \<and> list_ex (contains (lower L x)) SCENARIO_TRIGGERS))"
proof -
  have a: "q \<in> set (scenario_lines L content) \<longleftrightarrow>
      q \<in> set (cleaned_lines content) \<and> 10 < length q \<and> looks_situational L q"
    by (auto simp add: scenario_lines_def)
  have b: "\<forall>x \<in> set questions. 10 < length x \<and> 63 \<in> set x
               \<and> list_ex (contains (lower L x)) SCENARIO_TRIGGERS"
    if "attempt L create prompt expected model_name strict st = (Some (questions, m), st')"
  proof
    fix x assume x: "x \<in> set questions"
    from attempt_Some_result [OF that] obtain c where
      "questions = take expected (scenario_lines L (reply_text c))" by blast
    with x have "x \<in> set (scenario_lines L (reply_text c))"
      by (auto dest: in_set_takeD)
    then have "10 < length x \<and> looks_situational L x"
      by (simp add: scenario_lines_def)
    then show "10 < length x \<and> 63 \<in> set x \<and> list_ex (contains (lower L x)) SCENARIO_TRIGGERS"
      by (simp add: looks_situational_def Let_def)
  qed
  from a b show ?thesis by auto
qed

theorem validated_line_length_witness:
  "short_line \<in> set (cleaned_lines (reply_text (Some (py ''1. '' @ short_line @ [10] @ py ''- '' @ work_line))))
   \<and> looks_situational no_upper short_line \<and> length short_line = 8
   \<and> short_line \<notin> set (scenario_lines no_upper
          (reply_text (Some (py ''1. '' @ short_line @ [10] @ py ''- '' @ work_line))))
   \<and> work_line \<in> set (scenario_lines no_upper
          (reply_text (Some (py ''1. '' @ short_line @ [10] @ py ''- '' @ work_line))))"
  using validated_line_length [of short_line no_upper
      "reply_text (Some (py ''1. '' @ short_line @ [10] @ py ''- '' @ work_line))"]
    validated_line_length [of work_line no_upper
      "reply_text (Some (py ''1. '' @ short_line @ [10] @ py ''- '' @ work_line))"]
    short_line_cleaned short_line_situational work_line_situational
  by simp

text \<open>
  Claim C1, as the code has it. The claim says an attempt is accepted only when exactly \<open>N\<close>
  lines pass validation. The code cuts the validated lines to the first \<open>N\<close>
  (\<open>scenario_lines[:expected]\<close>) and accepts when \<open>N\<close> remain: an attempt is accepted exactly
  when at least \<open>N\<close> lines pass validation, and its questions are the first \<open>N\<close> of them; with
  fewer than \<open>N\<close> validated lines the attempt is rejected in full. A call that does not answer
  from the cache returns \<open>ai_ok\<close> true only with the first \<open>N\<close> validated lines of a reply that
  holds at least \<open>N\<close>; it returns \<open>ai_ok\<close> false only when no reply of the schedule held
  \<open>N\<close>, and then none of the generated lines is returned: the questions are the patched
  defaults. Either way the returned pair is written to the cache.
\<close>

theorem accepted_iff_enough_lines:
  assumes "force_refresh \<or> session_state (cache_key str_hash prompt (length defaults)) = None"
  shows "(let out = ai_generate_questions L str_hash create session_state prompt defaults mc
                      force_refresh;
              N = length defaults;
              sched = schedule (models_of mc)
          in (create (length (calls st)) model_name prompt N strict = Content c \<longrightarrow>
                (N \<le> length (scenario_lines L (reply_text c)) \<longrightarrow>
                   (\<exists>m. fst (attempt L create prompt N model_name strict st)
                          = Some (take N (scenario_lines L (reply_text c)), m) \<and> ai_ok m))
                \<and> (length (scenario_lines L (reply_text c)) < N \<longrightarrow>
                   fst (attempt L create prompt N model_name strict st) = None))
             \<and> (ai_ok (snd (returned out)) \<longrightarrow>
                  (\<exists>k<length sched. \<exists>c. answer create prompt N k (sched ! k) = Content c
                      \<and> N \<le> length (scenario_lines L (reply_text c))
                      \<and> fst (returned out) = take N (scenario_lines L (reply_text c))))
             \<and> (\<not> ai_ok (snd (returned out)) \<longrightarrow>
                  (\<forall>k<length sched. \<not> enough_lines L N (answer create prompt N k (sched ! k)))
                  \<and> fst (returned out) = map (fix_default L) defaults)
             \<and> cache_after out
                 = session_state(cache_key str_hash prompt N \<mapsto> returned out))"
proof -
  let ?out = "ai_generate_questions L str_hash create session_state prompt defaults mc force_refresh"
  let ?N = "length defaults"
  let ?sched = "schedule (models_of mc)"
  let ?n = "length (calls_made ?out)"
  let ?enough = "\<lambda>k. enough_lines L ?N (answer create prompt ?N k (?sched ! k))"
  note t = generate_trace [of force_refresh session_state str_hash prompt defaults L create mc]
  have a: "create (length (calls st)) model_name prompt ?N strict = Content c \<longrightarrow>
                (?N \<le> length (scenario_lines L (reply_text c)) \<longrightarrow>
                   (\<exists>m. fst (attempt L create prompt ?N model_name strict st)
                          = Some (take ?N (scenario_lines L (reply_text c)), m) \<and> ai_ok m))
                \<and> (length (scenario_lines L (reply_text c)) < ?N \<longrightarrow>
                   fst (attempt L create prompt ?N model_name strict st) = None)"
    by (simp add: attempt_accepts attempt_rejects)
  have n: "0 < ?n" "?n \<le> length ?sched" using t assms by simp_all
  have b: "\<exists>k<length ?sched. \<exists>c. answer create prompt ?N k (?sched ! k) = Content c
                      \<and> ?N \<le> length (scenario_lines L (reply_text c))
                      \<and> fst (returned ?out) = take ?N (scenario_lines L (reply_text c))"
    if ok: "ai_ok (snd (returned ?out))"
  proof -
    have e: "?enough (?n - 1)" using t assms ok by blast
    then have "\<exists>c. answer create prompt ?N (?n - 1) (?sched ! (?n - 1)) = Content c
              \<and> ?N \<le> length (scenario_lines L (reply_text c))
              \<and> fst (returned ?out) = take ?N (scenario_lines L (reply_text c))"
      using t assms by blast
    moreover have "?n - 1 < length ?sched" using n by linarith
    ultimately show ?thesis by blast
  qed
  have c: "(\<forall>k<length ?sched. \<not> ?enough k) \<and> fst (returned ?out) = map (fix_default L) defaults"
    if bad: "\<not> ai_ok (snd (returned ?out))"
  proof -
    have e: "\<not> ?enough (?n - 1)" using t assms bad by blast
    then have full: "?n = length ?sched" and fb: "fst (returned ?out) = map (fix_default L) defaults"
      using t assms by blast+
    have prev: "\<forall>j. Suc j < ?n \<longrightarrow> \<not> ?enough j" using t assms by blast
    have "\<not> ?enough k" if "k < length ?sched" for k
    proof (cases "Suc k < ?n")
      case True
      then show ?thesis using prev by blast
    next
      case False
      with that full have "k = ?n - 1" by simp
      then show ?thesis using e by simp
    qed
    then show ?thesis using fb by blast
  qed
  have d: "cache_after ?out = session_state(cache_key str_hash prompt ?N \<mapsto> returned ?out)"
    using t assms by blast
  show ?thesis unfolding Let_def using a b c d by blast
qed

text \<open>
  Claim C1 as stated fails: with one default item (\<open>N = 1\<close>), a reply with two validated
  lines is accepted, cut to its first line, returned with \<open>ai_ok\<close> true and cached.
\<close>

theorem accepts_more_than_expected_counterexample:
  "length (scenario_lines no_upper (reply_text (Some two_lines))) = 2
   \<and> length [tired] = 1
   \<and> returned (ai_generate_questions no_upper hash0 (reply_always (Content (Some two_lines)))
        Map.empty (py ''Rewrite'') [tired] (Some [engine]) True)
      = ([wake_line],
         \<lparr>used_model = Some engine, ai_ok = True, reason = py ''scenario-ok (strict=False)''\<rparr>)
   \<and> cache_after (ai_generate_questions no_upper hash0 (reply_always (Content (Some two_lines)))
        Map.empty (py ''Rewrite'') [tired] (Some [engine]) True) (0, 1)
      = Some ([wake_line],
         \<lparr>used_model = Some engine, ai_ok = True, reason = py ''scenario-ok (strict=False)''\<rparr>)"
  by (simp add: run_accepts_first two_lines_valid)

theorem accepted_iff_enough_lines_witness:
  "ai_ok (snd (returned (ai_generate_questions no_upper hash0
        (reply_always (Content (Some two_lines))) Map.empty (py ''Rewrite'') [tired]
        (Some [engine]) True)))
   \<and> (\<exists>k<length (schedule (models_of (Some [engine]))). \<exists>c.
        answer (reply_always (Content (Some two_lines))) (py ''Rewrite'') (length [tired]) k
          (schedule (models_of (Some [engine])) ! k) = Content c
        \<and> length [tired] \<le> length (scenario_lines no_upper (reply_text c))
        \<and> fst (returned (ai_generate_questions no_upper hash0
              (reply_always (Content (Some two_lines))) Map.empty (py ''Rewrite'') [tired]
              (Some [engine]) True))
            = take (length [tired]) (scenario_lines no_upper (reply_text c)))
   \<and> \<not> ai_ok (snd (returned (ai_generate_questions no_upper hash0
        (reply_always (Content None)) Map.empty (py ''Rewrite'') [tired]
        (Some [engine]) False)))
   \<and> fst (returned (ai_generate_questions no_upper hash0
        (reply_always (Content None)) Map.empty (py ''Rewrite'') [tired]
        (Some [engine]) False)) = [py ''When you think about your day, Are you tired?'']"
proof -
  have ok: "ai_ok (snd (returned (ai_generate_questions no_upper hash0
        (reply_always (Content (Some two_lines))) Map.empty (py ''Rewrite'') [tired]
        (Some [engine]) True)))"
    by (simp add: run_accepts_first)
  have bad: "\<not> ai_ok (snd (returned (ai_generate_questions no_upper hash0
        (reply_always (Content None)) Map.empty (py ''Rewrite'') [tired]
        (Some [engine]) False)))"
    by (simp add: run_all_rejected)
  show ?thesis
    using accepted_iff_enough_lines [where force_refresh = True and session_state = Map.empty
          and str_hash = hash0 and prompt = "py ''Rewrite''" and defaults = "[tired]"
          and L = no_upper
          and create = "reply_always (Content (Some two_lines))" and mc = "Some [engine]"
          and st = start and model_name = engine and strict = False and c = None]
      accepted_iff_enough_lines [where force_refresh = False and session_state = Map.empty
          and str_hash = hash0 and prompt = "py ''Rewrite''" and defaults = "[tired]"
          and L = no_upper
          and create = "reply_always (Content None)" and mc = "Some [engine]"
          and st = start and model_name = engine and strict = False and c = None]
      ok bad tired_fixed
    by (simp add: Let_def)
qed

text \<open>
  Claim C4. When the session cache holds an outcome under the key of the prompt and the count
  and \<open>force_refresh\<close> is false, the call returns that outcome, leaves the cache as it is,
  and issues no generation call. Hence a second call with the same arguments and
  \<open>force_refresh\<close> false, after any first call, returns what the first returned, without a
  call to the service (whatever the service would answer then).
\<close>

theorem cached_outcome_returned:
  "(session_state (cache_key str_hash prompt (length defaults)) = Some cached \<longrightarrow>
      ai_generate_questions L str_hash create session_state prompt defaults mc False
        = \<lparr>returned = cached, cache_after = session_state, calls_made = [], sleeps_made = 0\<rparr>)
   \<and> (let first = ai_generate_questions L str_hash create session_state prompt defaults mc force;
           second = ai_generate_questions L str_hash create' (cache_after first) prompt defaults
                      mc False
       in returned second = returned first \<and> calls_made second = []
          \<and> cache_after second = cache_after first)"
proof -
  let ?first = "ai_generate_questions L str_hash create session_state prompt defaults mc force"
  have "cache_after ?first (cache_key str_hash prompt (length defaults)) = Some (returned ?first)"
    by (rule cache_written)
  then have "ai_generate_questions L str_hash create' (cache_after ?first) prompt defaults mc False
      = \<lparr>returned = returned ?first, cache_after = cache_after ?first, calls_made = [],
          sleeps_made = 0\<rparr>"
    by (rule generate_hit)
  then show ?thesis by (simp add: generate_hit Let_def)
qed

theorem cached_outcome_returned_witness:
  "ai_generate_questions no_upper hash0 (reply_always (Raises (py ''rate limit'')))
       [(0, 1) \<mapsto> ([wake_line],
          \<lparr>used_model = Some engine, ai_ok = True, reason = py ''scenario-ok (strict=False)''\<rparr>)]
       (py ''Rewrite'') [tired] None False
     = \<lparr>returned = ([wake_line],
          \<lparr>used_model = Some engine, ai_ok = True, reason = py ''scenario-ok (strict=False)''\<rparr>),
         cache_after = [(0, 1) \<mapsto> ([wake_line],
          \<lparr>used_model = Some engine, ai_ok = True, reason = py ''scenario-ok (strict=False)''\<rparr>)],
         calls_made = [], sleeps_made = 0\<rparr>
   \<and> returned (ai_generate_questions no_upper hash0 (reply_always (Raises (py ''rate limit'')))
        (cache_after (ai_generate_questions no_upper hash0
           (reply_always (Content (Some two_lines))) Map.empty (py ''Rewrite'') [tired]
           (Some [engine]) True))
        (py ''Rewrite'') [tired] (Some [engine]) False)
      = ([wake_line],
          \<lparr>used_model = Some engine, ai_ok = True, reason = py ''scenario-ok (strict=False)''\<rparr>)
   \<and> calls_made (ai_generate_questions no_upper hash0 (reply_always (Raises (py ''rate limit'')))
        (cache_after (ai_generate_questions no_upper hash0
           (reply_always (Content (Some two_lines))) Map.empty (py ''Rewrite'') [tired]
           (Some [engine]) True))
        (py ''Rewrite'') [tired] (Some [engine]) False) = []"
  using cached_outcome_returned [where session_state = "[(0, 1) \<mapsto> ([wake_line],
          \<lparr>used_model = Some engine, ai_ok = True, reason = py ''scenario-ok (strict=False)''\<rparr>)]"
      and str_hash = hash0 and prompt = "py ''Rewrite''" and defaults = "[tired]"
      and cached = "([wake_line],
          \<lparr>used_model = Some engine, ai_ok = True, reason = py ''scenario-ok (strict=False)''\<rparr>)"
      and L = no_upper and create = "reply_always (Raises (py ''rate limit''))" and mc = None
      and create' = "reply_always (Raises (py ''rate limit''))" and force = False]
    cached_outcome_returned [where session_state = Map.empty
      and str_hash = hash0 and prompt = "py ''Rewrite''" and defaults = "[tired]"
      and cached = "([], \<lparr>used_model = None, ai_ok = False, reason = []\<rparr>)"
      and L = no_upper and create = "reply_always (Content (Some two_lines))"
      and mc = "Some [engine]"
      and create' = "reply_always (Raises (py ''rate limit''))" and force = True]
    run_accepts_first [of Map.empty]
  by (simp add: cache_key_def hash0_def Let_def)

text \<open>
  Claim C5. With \<open>force_refresh\<close> true the cache is not read: what is returned and which
  calls are issued are the same as with an empty cache. At least one generation call is
  made, the first one to the first engine in normal mode (the engine list is never empty,
  as \<open>None\<close> and the empty list stand for the three default engines), and the outcome,
  accepted or fallback, is written under the key, replacing what was there.
\<close>

theorem force_refresh_regenerates:
  "(let out = ai_generate_questions L str_hash create session_state prompt defaults mc True;
        fresh = ai_generate_questions L str_hash create Map.empty prompt defaults mc True;
        key = cache_key str_hash prompt (length defaults)
    in calls_made out \<noteq> []
       \<and> hd (calls_made out) = (hd (models_of mc), False)
       \<and> returned out = returned fresh \<and> calls_made out = calls_made fresh
       \<and> cache_after out = session_state(key \<mapsto> returned out))"
proof -
  let ?out = "ai_generate_questions L str_hash create session_state prompt defaults mc True"
  let ?fresh = "ai_generate_questions L str_hash create Map.empty prompt defaults mc True"
  let ?sched = "schedule (models_of mc)"
  have t: "calls_made ?out = take (length (calls_made ?out)) ?sched"
    "0 < length (calls_made ?out)"
    "cache_after ?out
       = session_state(cache_key str_hash prompt (length defaults) \<mapsto> returned ?out)"
    using generate_trace [of True session_state str_hash prompt defaults L create mc] by simp_all
  have ne: "calls_made ?out \<noteq> []" using t(2) by auto
  have "hd (calls_made ?out) = hd ?sched"
    using t(1) t(2) by (metis hd_take)
  then have h: "hd (calls_made ?out) = (hd (models_of mc), False)"
    by (simp add: schedule_hd models_of_nonempty)
  have same: "returned ?out = returned ?fresh \<and> calls_made ?out = calls_made ?fresh"
    by (simp add: ai_generate_questions_def Let_def split: prod.splits option.splits)
  show ?thesis using ne h same t(3) by (simp add: Let_def)
qed

theorem force_refresh_regenerates_witness:
  "calls_made (ai_generate_questions no_upper hash0 (reply_always (Content (Some two_lines)))
       [(0, 1) \<mapsto> ([py ''When you think about your day, Are you tired?''],
          \<lparr>used_model = Some engine, ai_ok = False, reason = py ''error: rate limit''\<rparr>)]
       (py ''Rewrite'') [tired] (Some [engine]) True) = [(engine, False)]
   \<and> returned (ai_generate_questions no_upper hash0 (reply_always (Content (Some two_lines)))
       [(0, 1) \<mapsto> ([py ''When you think about your day, Are you tired?''],
          \<lparr>used_model = Some engine, ai_ok = False, reason = py ''error: rate limit''\<rparr>)]
       (py ''Rewrite'') [tired] (Some [engine]) True)
      = ([wake_line],
         \<lparr>used_model = Some engine, ai_ok = True, reason = py ''scenario-ok (strict=False)''\<rparr>)
   \<and> cache_after (ai_generate_questions no_upper hash0
       (reply_always (Content (Some two_lines)))
       [(0, 1) \<mapsto> ([py ''When you think about your day, Are you tired?''],
          \<lparr>used_model = Some engine, ai_ok = False, reason = py ''error: rate limit''\<rparr>)]
       (py ''Rewrite'') [tired] (Some [engine]) True) (0, 1)
      = Some ([wake_line],
         \<lparr>used_model = Some engine, ai_ok = True, reason = py ''scenario-ok (strict=False)''\<rparr>)"
  using force_refresh_regenerates [where session_state =
        "[(0, 1) \<mapsto> ([py ''When you think about your day, Are you tired?''],
          \<lparr>used_model = Some engine, ai_ok = False, reason = py ''error: rate limit''\<rparr>)]"
      and str_hash = hash0 and prompt = "py ''Rewrite''" and defaults = "[tired]"
      and L = no_upper and create = "reply_always (Content (Some two_lines))"
      and mc = "Some [engine]"]
    run_accepts_first
  by (simp add: Let_def cache_key_def hash0_def)

text \<open>
  Claim C6. On a cache miss or with \<open>force_refresh\<close>, the generation calls issued are an
  initial stretch of the schedule, in which engine \<open>i\<close> of the list holds the places
  \<open>2i\<close> (normal) and \<open>2i + 1\<close> (strict). There is at least one call and there are at most
  twice as many as engines. Every call but the last one failed (its reply was an error or
  held fewer than \<open>N\<close> validated lines), so no call follows an accepted one and a strict
  attempt is made only after the normal attempt of the same engine failed. When the last call
  failed too, the whole schedule was tried and the fallback is returned; otherwise the last
  call is the accepted one and its first \<open>N\<close> validated lines are returned at once.
\<close>

theorem attempts_follow_schedule:
  assumes "force_refresh \<or> session_state (cache_key str_hash prompt (length defaults)) = None"
  shows "(let out = ai_generate_questions L str_hash create session_state prompt defaults mc
                      force_refresh;
              models = models_of mc;
              n = length (calls_made out);
              failed = (\<lambda>k. \<not> enough_lines L (length defaults)
                          (answer create prompt (length defaults) k (schedule models ! k)))
          in calls_made out = take n (schedule models)
             \<and> 0 < n \<and> n \<le> 2 * length models
             \<and> (\<forall>i<length models. schedule models ! (2 * i) = (models ! i, False)
                                   \<and> schedule models ! (2 * i + 1) = (models ! i, True))
             \<and> (\<forall>k. Suc k < n \<longrightarrow> failed k)
             \<and> (failed (n - 1) \<longrightarrow>
                   n = 2 * length models \<and> \<not> ai_ok (snd (returned out))
                   \<and> fst (returned out) = map (fix_default L) defaults)
             \<and> (\<not> failed (n - 1) \<longrightarrow>
                   ai_ok (snd (returned out))
                   \<and> used_model (snd (returned out)) = Some (fst (schedule models ! (n - 1)))
                   \<and> (\<exists>c. answer create prompt (length defaults) (n - 1)
                              (schedule models ! (n - 1)) = Content c
                         \<and> fst (returned out)
                             = take (length defaults) (scenario_lines L (reply_text c)))))"
  using generate_trace [of force_refresh session_state str_hash prompt defaults L create mc] assms
    schedule_nth [of _ "models_of mc"] schedule_length [of "models_of mc"]
  by (simp add: Let_def) blast

theorem attempts_follow_schedule_witness:
  "calls_made (ai_generate_questions no_upper hash0
       (reply_nth [Raises (py ''rate limit''), Content (Some two_lines)]) Map.empty
       (py ''Rewrite'') [tired] (Some [engine]) False)
     = take 2 (schedule (models_of (Some [engine])))
   \<and> schedule (models_of (Some [engine])) = [(engine, False), (engine, True)]
   \<and> \<not> enough_lines no_upper (length [tired])
         (answer (reply_nth [Raises (py ''rate limit''), Content (Some two_lines)])
            (py ''Rewrite'') (length [tired]) 0 (engine, False))
   \<and> enough_lines no_upper (length [tired])
         (answer (reply_nth [Raises (py ''rate limit''), Content (Some two_lines)])
            (py ''Rewrite'') (length [tired]) 1 (engine, True))
   \<and> returned (ai_generate_questions no_upper hash0
       (reply_nth [Raises (py ''rate limit''), Content (Some two_lines)]) Map.empty
       (py ''Rewrite'') [tired] (Some [engine]) False)
      = ([wake_line],
         \<lparr>used_model = Some engine, ai_ok = True, reason = py ''scenario-ok (strict=True)''\<rparr>)"
proof -
  have s: "schedule (models_of (Some [engine])) = [(engine, False), (engine, True)]"
    by (simp add: schedule_def models_of_def)
  have e: "\<not> enough_lines no_upper (length [tired])
         (answer (reply_nth [Raises (py ''rate limit''), Content (Some two_lines)])
            (py ''Rewrite'') (length [tired]) 0 (engine, False))
     \<and> enough_lines no_upper (length [tired])
         (answer (reply_nth [Raises (py ''rate limit''), Content (Some two_lines)])
            (py ''Rewrite'') (length [tired]) 1 (engine, True))"
    by (simp add: enough_lines_def answer_def reply_nth_def two_lines_valid)
  show ?thesis
    using attempts_follow_schedule [where force_refresh = False and session_state = Map.empty
        and str_hash = hash0 and prompt = "py ''Rewrite''" and defaults = "[tired]"
        and L = no_upper
        and create = "reply_nth [Raises (py ''rate limit''), Content (Some two_lines)]"
        and mc = "Some [engine]"]
      s e run_error_then_accepts
    by (simp add: Let_def)
qed

text \<open>
  Claim C2. The model of \<open>ai_generate_questions\<close> is a total function: the one operation
  that can raise, the generation call with the reading of its reply, sits inside
  \<open>try ... except Exception\<close> and is the value \<open>Raises\<close>; nothing else in the function
  raises on strings and lists. For every prompt, every list of defaults and every behaviour of
  the service, when the session cache holds only what earlier calls wrote (\<open>cache_ok\<close>, which
  the empty cache satisfies and every call preserves), the call returns exactly
  \<open>len(defaults)\<close> questions, each with a question mark and, lowered, with a marker, together
  with its \<open>meta\<close>. When the cache is not read and no reply of the schedule holds enough
  validated lines (all calls raise, or return too little), all attempts of the schedule are
  made, \<open>ai_ok\<close> is false and the questions are the patched defaults.
\<close>

theorem always_sized_situational:
  assumes "cache_ok L session_state"
  shows "(let out = ai_generate_questions L str_hash create session_state prompt defaults mc
                      force_refresh;
              N = length defaults;
              key = cache_key str_hash prompt N;
              sched = schedule (models_of mc)
          in length (fst (returned out)) = N
             \<and> (\<forall>q \<in> set (fst (returned out)).
                   63 \<in> set q \<and> list_ex (contains (lower L q)) SCENARIO_TRIGGERS)
             \<and> cache_ok L (cache_after out)
             \<and> ((force_refresh \<or> session_state key = None)
                  \<and> (\<forall>k<length sched. \<not> enough_lines L N (answer create prompt N k (sched ! k)))
                \<longrightarrow> \<not> ai_ok (snd (returned out))
                    \<and> fst (returned out) = map (fix_default L) defaults
                    \<and> calls_made out = sched))"
proof -
  let ?out = "ai_generate_questions L str_hash create session_state prompt defaults mc force_refresh"
  let ?N = "length defaults"
  let ?key = "cache_key str_hash prompt ?N"
  let ?sched = "schedule (models_of mc)"
  let ?n = "length (calls_made ?out)"
  have sized: "length (fst (returned ?out)) = ?N \<and> list_all (looks_situational L) (fst (returned ?out))
      \<and> cache_ok L (cache_after ?out)"
  proof (cases "force_refresh \<or> session_state ?key = None")
    case True
    have g: "length (fst (returned ?out)) = ?N
        \<and> list_all (looks_situational L) (fst (returned ?out))"
      using True by (intro generated_sized)
    have "cache_after ?out = session_state(?key \<mapsto> returned ?out)"
      using generate_trace [of force_refresh session_state str_hash prompt defaults L create mc]
        True by blast
    then have "cache_after ?out
        = session_state((str_hash prompt, ?N) \<mapsto> (fst (returned ?out), snd (returned ?out)))"
      by (simp add: cache_key_def)
    moreover have "cache_ok L (session_state((str_hash prompt, ?N)
        \<mapsto> (fst (returned ?out), snd (returned ?out))))"
      using assms g by (intro cache_ok_update) simp_all
    ultimately show ?thesis using g by simp
  next
    case False
    then obtain qs m where hit: "session_state ?key = Some (qs, m)" and nf: "\<not> force_refresh"
      by (cases "session_state ?key") auto
    have "ai_generate_questions L str_hash create session_state prompt defaults mc False
        = \<lparr>returned = (qs, m), cache_after = session_state, calls_made = [],
            sleeps_made = 0\<rparr>"
      using hit by (rule generate_hit)
    with nf have out: "?out = \<lparr>returned = (qs, m), cache_after = session_state, calls_made = [],
        sleeps_made = 0\<rparr>" by simp
    from hit assms have "length qs = ?N \<and> list_all (looks_situational L) qs"
      unfolding cache_ok_def cache_key_def by blast
    then show ?thesis using out assms by simp
  qed
  have marks: "\<forall>q \<in> set (fst (returned ?out)).
      63 \<in> set q \<and> list_ex (contains (lower L q)) SCENARIO_TRIGGERS"
    using sized by (auto simp add: list_all_iff looks_situational_def Let_def)
  have exhausted: "\<not> ai_ok (snd (returned ?out))
        \<and> fst (returned ?out) = map (fix_default L) defaults \<and> calls_made ?out = ?sched"
    if miss: "force_refresh \<or> session_state ?key = None"
      and fail: "\<forall>k<length ?sched. \<not> enough_lines L ?N (answer create prompt ?N k (?sched ! k))"
  proof -
    note t = generate_trace [of force_refresh session_state str_hash prompt defaults L create mc]
    have n: "0 < ?n" "?n \<le> length ?sched" using t miss by simp_all
    then have "?n - 1 < length ?sched" by linarith
    with fail have "\<not> enough_lines L ?N (answer create prompt ?N (?n - 1) (?sched ! (?n - 1)))"
      by blast
    with t miss have "?n = length ?sched" "fst (returned ?out) = map (fix_default L) defaults"
      "\<not> ai_ok (snd (returned ?out))" by blast+
    moreover have "calls_made ?out = take ?n ?sched" using t miss by blast
    ultimately show ?thesis by simp
  qed
  show ?thesis unfolding Let_def using sized marks exhausted by blast
qed

theorem always_sized_situational_witness:
  "cache_ok no_upper Map.empty
   \<and> cache_ok no_upper [(0, 1) \<mapsto> ([wake_line],
        \<lparr>used_model = Some engine, ai_ok = True, reason = py ''scenario-ok (strict=False)''\<rparr>)]
   \<and> fst (returned (ai_generate_questions no_upper hash0
          (reply_always (Raises (py ''rate limit''))) Map.empty (py ''Rewrite'') [tired] None
          False))
       = [py ''When you think about your day, Are you tired?'']
   \<and> looks_situational no_upper (py ''When you think about your day, Are you tired?'')
   \<and> \<not> ai_ok (snd (returned (ai_generate_questions no_upper hash0
          (reply_always (Raises (py ''rate limit''))) Map.empty (py ''Rewrite'') [tired] None
          False)))
   \<and> cache_ok no_upper (cache_after (ai_generate_questions no_upper hash0
          (reply_always (Raises (py ''rate limit''))) Map.empty (py ''Rewrite'') [tired] None
          False))
   \<and> length (fst (returned (ai_generate_questions no_upper hash0
          (reply_always (Raises (py ''rate limit'')))
          [(0, 1) \<mapsto> ([wake_line],
            \<lparr>used_model = Some engine, ai_ok = True,
              reason = py ''scenario-ok (strict=False)''\<rparr>)]
          (py ''Rewrite'') [tired] None False))) = 1"
proof -
  have e: "cache_ok no_upper Map.empty" by (rule cache_ok_empty)
  have c: "cache_ok no_upper [(0, 1) \<mapsto> ([wake_line],
        \<lparr>used_model = Some engine, ai_ok = True, reason = py ''scenario-ok (strict=False)''\<rparr>)]"
    using cache_ok_update [OF e, of "[wake_line]" 1 0] wake_line_situational by simp
  show ?thesis
    using e c
      always_sized_situational [OF e, where str_hash = hash0
        and create = "reply_always (Raises (py ''rate limit''))" and prompt = "py ''Rewrite''"
        and defaults = "[tired]" and mc = None and force_refresh = False]
      always_sized_situational [OF c, where str_hash = hash0
        and create = "reply_always (Raises (py ''rate limit''))" and prompt = "py ''Rewrite''"
        and defaults = "[tired]" and mc = None and force_refresh = False]
      run_all_raise
    by (simp add: Let_def looks_situational_def)
qed

text \<open>
  Claim C3, checked against the code. An attempt whose generation call raises records
  \<open>"error: " + str(e)\<close> with the engine in \<open>meta\<close> and falls through to the next iteration:
  the rewrite is not aborted. It executes no \<open>time.sleep\<close>: the sleep counter is unchanged,
  the only sleep of the function being on the path of a reply with too few validated lines
  (line 130). When every call of a run raises, the whole schedule is attempted, no sleep at all
  is executed, and the returned \<open>meta\<close> carries the reason of the last error. So the backoff
  the claim states for the error path is absent from the code.
\<close>

theorem error_attempt_without_backoff:
  "(create (length (calls st)) model_name prompt expected strict = Raises e \<longrightarrow>
      attempt L create prompt expected model_name strict st
        = (None,
           st\<lparr>calls := calls st @ [(model_name, strict)],
              cur_meta := \<lparr>used_model = Some model_name, ai_ok = False,
                            reason = py ''error: '' @ e\<rparr>\<rparr>)
      \<and> sleeps (snd (attempt L create prompt expected model_name strict st)) = sleeps st)
   \<and> ((force_refresh \<or> session_state (cache_key str_hash prompt (length defaults)) = None)
        \<and> (\<forall>k<length (schedule (models_of mc)).
              \<exists>e. answer create prompt (length defaults) k (schedule (models_of mc) ! k)
                     = Raises e)
      \<longrightarrow> (let out = ai_generate_questions L str_hash create session_state prompt defaults mc
                        force_refresh
           in calls_made out = schedule (models_of mc)
              \<and> sleeps_made out = 0
              \<and> (\<exists>e. answer create prompt (length defaults)
                         (length (schedule (models_of mc)) - 1)
                         (last (schedule (models_of mc))) = Raises e
                    \<and> snd (returned out)
                        = \<lparr>used_model = Some (fst (last (schedule (models_of mc)))),
                            ai_ok = False, reason = py ''error: '' @ e\<rparr>)))"
proof -
  have a: "create (length (calls st)) model_name prompt expected strict = Raises e \<longrightarrow>
      attempt L create prompt expected model_name strict st
        = (None,
           st\<lparr>calls := calls st @ [(model_name, strict)],
              cur_meta := \<lparr>used_model = Some model_name, ai_ok = False,
                            reason = py ''error: '' @ e\<rparr>\<rparr>)
      \<and> sleeps (snd (attempt L create prompt expected model_name strict st)) = sleeps st"
    by (simp add: attempt_raises)
  let ?sched = "schedule (models_of mc)"
  let ?out = "ai_generate_questions L str_hash create session_state prompt defaults mc force_refresh"
  have b: "calls_made ?out = ?sched \<and> sleeps_made ?out = 0
              \<and> (\<exists>e. answer create prompt (length defaults) (length ?sched - 1) (last ?sched)
                        = Raises e
                    \<and> snd (returned ?out)
                        = \<lparr>used_model = Some (fst (last ?sched)),
                            ai_ok = False, reason = py ''error: '' @ e\<rparr>)"
    if miss: "force_refresh \<or> session_state (cache_key str_hash prompt (length defaults)) = None"
      and raise: "\<forall>k<length ?sched.
              \<exists>e. answer create prompt (length defaults) k (?sched ! k) = Raises e"
  proof -
    from raise have "\<forall>k<length ?sched.
        \<exists>e. answer create prompt (length defaults) (length (calls start) + k) (?sched ! k) = Raises e"
      by (simp add: start_calls)
    from attempts_loop_all_raise [OF this, of L] obtain st' where
      r: "attempts_loop L create prompt (length defaults) ?sched start = (None, st')"
      and s: "sleeps st' = 0" and c: "calls st' = ?sched"
      and m: "\<exists>e. answer create prompt (length defaults) (length ?sched - 1) (last ?sched)
                     = Raises e
                 \<and> cur_meta st' = \<lparr>used_model = Some (fst (last ?sched)), ai_ok = False,
                                    reason = py ''error: '' @ e\<rparr>"
      using schedule_nonempty [of mc] by (auto simp add: start_calls)
    have "?out = \<lparr>returned = (map (fix_default L) defaults, cur_meta st'),
        cache_after = session_state(cache_key str_hash prompt (length defaults)
                        \<mapsto> (map (fix_default L) defaults, cur_meta st')),
        calls_made = calls st', sleeps_made = sleeps st'\<rparr>"
      using miss r by (intro generate_fallback)
    then show ?thesis using s c m by simp
  qed
  show ?thesis unfolding Let_def using a b by blast
qed

theorem error_attempt_without_backoff_witness:
  "calls_made (ai_generate_questions no_upper hash0 (reply_always (Raises (py ''rate limit'')))
       Map.empty (py ''Rewrite'') [tired] None False) = schedule DEFAULT_MODELS
   \<and> length (schedule DEFAULT_MODELS) = 6
   \<and> sleeps_made (ai_generate_questions no_upper hash0
       (reply_always (Raises (py ''rate limit''))) Map.empty (py ''Rewrite'') [tired] None
       False) = 0
   \<and> snd (returned (ai_generate_questions no_upper hash0
       (reply_always (Raises (py ''rate limit''))) Map.empty (py ''Rewrite'') [tired] None
       False))
      = \<lparr>used_model = Some (py ''gpt-3.5-turbo''), ai_ok = False,
          reason = py ''error: rate limit''\<rparr>
   \<and> sleeps_made (ai_generate_questions no_upper hash0 (reply_always (Content None))
       Map.empty (py ''Rewrite'') [tired] (Some [engine]) False) = 2"
proof -
  have all: "\<forall>k<length (schedule (models_of None)).
      \<exists>e. answer (reply_always (Raises (py ''rate limit''))) (py ''Rewrite'') (length [tired]) k
             (schedule (models_of None) ! k) = Raises e"
    by (simp add: answer_def reply_always_def)
  have six: "length (schedule DEFAULT_MODELS) = 6"
    by (simp add: schedule_length DEFAULT_MODELS_def)
  show ?thesis
    using error_attempt_without_backoff [where force_refresh = False
        and session_state = Map.empty and str_hash = hash0 and prompt = "py ''Rewrite''"
        and defaults = "[tired]" and mc = None and L = no_upper
        and create = "reply_always (Raises (py ''rate limit''))"
        and st = start and model_name = engine and strict = False and expected = 1
        and e = "py ''rate limit''"]
      all six run_all_raise run_all_rejected
    by (simp add: Let_def)
qed

end
